theory Spec2Isabelle
  imports Complex_Main
begin

unbundle bit_operations_syntax

section \<open>Vector algebra (struct vec3)\<close>

text \<open>
  The C++ type \<^verbatim>\<open>float\<close> is modelled by \<^typ>\<open>real\<close>: arithmetic is exact, there is
  no rounding, no overflow and no NaN. Every statement below is about this exact-arithmetic
  reading of the program.
\<close>

datatype vec3 = Vec3 (vx: real) (vy: real) (vz: real)

text \<open>\<^verbatim>\<open>operator*(float)\<close>, \<^verbatim>\<open>operator*(vec3)\<close>, \<^verbatim>\<open>operator+\<close>, \<^verbatim>\<open>operator-\<close> (binary and unary).\<close>

definition scale :: "vec3 \<Rightarrow> real \<Rightarrow> vec3" where
  "scale a v = Vec3 (vx a * v) (vy a * v) (vz a * v)"

definition dot :: "vec3 \<Rightarrow> vec3 \<Rightarrow> real" where
  "dot a v = vx a * vx v + vy a * vy v + vz a * vz v"

instantiation vec3 :: "{plus, minus, uminus}"
begin

definition plus_vec3 :: "vec3 \<Rightarrow> vec3 \<Rightarrow> vec3" where
  "plus_vec3 a v = Vec3 (vx a + vx v) (vy a + vy v) (vz a + vz v)"

definition minus_vec3 :: "vec3 \<Rightarrow> vec3 \<Rightarrow> vec3" where
  "minus_vec3 a v = Vec3 (vx a - vx v) (vy a - vy v) (vz a - vz v)"

definition uminus_vec3 :: "vec3 \<Rightarrow> vec3" where
  "uminus_vec3 a = Vec3 (- vx a) (- vy a) (- vz a)"

instance ..

end

definition norm_v :: "vec3 \<Rightarrow> real" where
  "norm_v a = sqrt (vx a * vx a + vy a * vy a + vz a * vz a)"

text \<open>
  \<^verbatim>\<open>normalized\<close> multiplies by \<^verbatim>\<open>1.f / norm()\<close>. On the zero vector the C++ divides by zero;
  in HOL \<open>1 / 0 = 0\<close>, so the model returns the zero vector there.
\<close>

definition normalized :: "vec3 \<Rightarrow> vec3" where
  "normalized a = scale a (1 / norm_v a)"

definition cross :: "vec3 \<Rightarrow> vec3 \<Rightarrow> vec3" where
  "cross v1 v2 = Vec3 (vy v1 * vz v2 - vz v1 * vy v2) (vz v1 * vx v2 - vx v1 * vz v2)
                      (vx v1 * vy v2 - vy v1 * vx v2)"

section \<open>Reflection\<close>

definition reflect :: "vec3 \<Rightarrow> vec3 \<Rightarrow> vec3" where
  "reflect I N = I - scale (scale N 2) (dot I N)"


section \<open>Scene model\<close>

record Material =
  refractive_index :: real
  albedo :: "real list"
  diffuse_color :: vec3
  specular_exponent :: real

text \<open>The default member initialisers of \<^verbatim>\<open>struct Material\<close>.\<close>

definition Material_default :: Material where
  "Material_default =
     \<lparr>refractive_index = 1, albedo = [2, 0, 0, 0], diffuse_color = Vec3 0 0 0,
      specular_exponent = 0\<rparr>"

record Sphere =
  center :: vec3
  radius :: real
  material :: Material

definition ivory :: Material where
  "ivory = \<lparr>refractive_index = 1, albedo = [9/10, 5/10, 1/10, 0],
     diffuse_color = Vec3 (4/10) (4/10) (3/10), specular_exponent = 50\<rparr>"

definition glass :: Material where
  "glass = \<lparr>refractive_index = 15/10, albedo = [0, 9/10, 1/10, 8/10],
     diffuse_color = Vec3 (6/10) (7/10) (8/10), specular_exponent = 125\<rparr>"

definition red_rubber :: Material where
  "red_rubber = \<lparr>refractive_index = 1, albedo = [14/10, 3/10, 0, 0],
     diffuse_color = Vec3 (3/10) (1/10) (1/10), specular_exponent = 10\<rparr>"

definition mirror :: Material where
  "mirror = \<lparr>refractive_index = 1, albedo = [0, 16, 8/10, 0],
     diffuse_color = Vec3 1 1 1, specular_exponent = 1425\<rparr>"

text \<open>
  The global array \<^verbatim>\<open>spheres\<close> is mutable (\<^verbatim>\<open>animate\<close> moves two centres between
  frames), so the functions below take the sphere list as a parameter \<open>ss\<close>;
  \<open>spheres\<close> is its initial content.
\<close>

definition spheres :: "Sphere list" where
  "spheres =
     [\<lparr>center = Vec3 (-3) 0 (-16), radius = 2, material = ivory\<rparr>,
      \<lparr>center = Vec3 (-1) (-15/10) (-12), radius = 2, material = glass\<rparr>,
      \<lparr>center = Vec3 (15/10) (-5/10) (-18), radius = 3, material = red_rubber\<rparr>,
      \<lparr>center = Vec3 7 5 (-18), radius = 4, material = mirror\<rparr>]"

definition lights :: "vec3 list" where
  "lights = [Vec3 (-20) 20 20, Vec3 30 50 (-25), Vec3 30 20 30]"

section \<open>Refraction\<close>

definition refract_cosi :: "vec3 \<Rightarrow> vec3 \<Rightarrow> real" where
  "refract_cosi I N = - max (-1) (min 1 (dot I N))"

definition refract_k :: "real \<Rightarrow> real \<Rightarrow> real" where
  "refract_k eta cosi = 1 - eta * eta * (1 - cosi * cosi)"

function refract :: "vec3 \<Rightarrow> vec3 \<Rightarrow> real \<Rightarrow> real \<Rightarrow> vec3" where
  "refract I N eta_t eta_i =
     (if refract_cosi I N < 0 then refract I (- N) eta_i eta_t
      else if refract_k (eta_i / eta_t) (refract_cosi I N) < 0 then Vec3 1 0 0
      else scale I (eta_i / eta_t)
           + scale N (eta_i / eta_t * refract_cosi I N
                      - sqrt (refract_k (eta_i / eta_t) (refract_cosi I N))))"
  by pat_completeness auto
termination
proof (relation "measure (\<lambda>(I, N, eta_t, eta_i). if refract_cosi I N < 0 then 1 else 0)")
  show "wf (measure (\<lambda>(I, N, eta_t, eta_i). if refract_cosi I N < 0 then 1 else (0::nat)))"
    by simp
next
  fix I N :: vec3 and eta_t eta_i :: real
  assume neg: "refract_cosi I N < 0"
  have "dot I (- N) = - dot I N"
    by (simp add: dot_def uminus_vec3_def)
  with neg have "\<not> refract_cosi I (- N) < 0"
    by (simp add: refract_cosi_def min_def max_def split: if_splits)
  with neg show "((I, - N, eta_i, eta_t), (I, N, eta_t, eta_i))
      \<in> measure (\<lambda>(I, N, eta_t, eta_i). if refract_cosi I N < 0 then 1 else 0)"
    by simp
qed

declare refract.simps [simp del]

section \<open>Ray-sphere intersection\<close>

definition ray_sphere_intersect :: "vec3 \<Rightarrow> vec3 \<Rightarrow> Sphere \<Rightarrow> bool \<times> real" where
  "ray_sphere_intersect orig dir s =
     (let L = center s - orig;
          tca = dot L dir;
          d2 = dot L L - tca * tca
      in if d2 > radius s * radius s then (False, 0)
         else let thc = sqrt (radius s * radius s - d2);
                  t0 = tca - thc;
                  t1 = tca + thc
              in if t0 > 1/1000 then (True, t0)
                 else if t1 > 1/1000 then (True, t1)
                 else (False, 0))"

section \<open>Scene intersection\<close>

text \<open>
  The conversion \<^verbatim>\<open>int(double)\<close> truncates toward zero. (It is undefined outside the range
  of \<^verbatim>\<open>int\<close>; at an accepted checkerboard point the arguments lie between \<open>-15\<close> and
  \<open>1005\<close>.)
\<close>

definition int_of_double :: "real \<Rightarrow> int" where
  "int_of_double r = (if 0 \<le> r then \<lfloor>r\<rfloor> else \<lceil>r\<rceil>)"

definition checker_color :: "vec3 \<Rightarrow> vec3" where
  "checker_color pt =
     (if (int_of_double (5/10 * vx pt + 1000) + int_of_double (5/10 * vz pt)) AND 1 \<noteq> 0
      then Vec3 (3/10) (3/10) (3/10)
      else Vec3 (3/10) (2/10) (1/10))"

text \<open>The state of the search: \<^verbatim>\<open>nearest_dist\<close>, \<^verbatim>\<open>pt\<close>, \<^verbatim>\<open>N\<close>, \<^verbatim>\<open>material\<close>.\<close>

type_synonym hit_state = "real \<times> vec3 \<times> vec3 \<times> Material"

definition plane_d :: "vec3 \<Rightarrow> vec3 \<Rightarrow> real" where
  "plane_d orig dir = - (vy orig + 4) / vy dir"

text \<open>The bounded region of the plane \<open>y = -4\<close> that carries the checkerboard.\<close>

definition in_board :: "vec3 \<Rightarrow> bool" where
  "in_board p \<longleftrightarrow> \<bar>vx p\<bar> < 10 \<and> vz p < -10 \<and> vz p > -30"

definition plane_hit :: "vec3 \<Rightarrow> vec3 \<Rightarrow> real \<Rightarrow> bool" where
  "plane_hit orig dir nearest_dist \<longleftrightarrow>
     \<bar>vy dir\<bar> > 1/1000 \<and>
     (let d = plane_d orig dir; p = orig + scale dir d
      in d > 1/1000 \<and> d < nearest_dist \<and> in_board p)"

definition checkerboard_step :: "vec3 \<Rightarrow> vec3 \<Rightarrow> hit_state \<Rightarrow> hit_state" where
  "checkerboard_step orig dir st =
     (case st of (nearest_dist, pt, N, mat) \<Rightarrow>
        if plane_hit orig dir nearest_dist
        then (let d = plane_d orig dir; p = orig + scale dir d
              in (d, p, Vec3 0 1 0, mat\<lparr>diffuse_color := checker_color p\<rparr>))
        else st)"

definition sphere_step :: "vec3 \<Rightarrow> vec3 \<Rightarrow> Sphere \<Rightarrow> hit_state \<Rightarrow> hit_state" where
  "sphere_step orig dir s st =
     (case st of (nearest_dist, pt, N, mat) \<Rightarrow>
        (case ray_sphere_intersect orig dir s of (intersection, d) \<Rightarrow>
           if \<not> intersection \<or> d > nearest_dist then st
           else (d, orig + scale dir d, normalized (orig + scale dir d - center s),
                 material s)))"

fun sphere_loop :: "vec3 \<Rightarrow> vec3 \<Rightarrow> Sphere list \<Rightarrow> hit_state \<Rightarrow> hit_state" where
  "sphere_loop orig dir [] st = st"
| "sphere_loop orig dir (s # ss) st = sphere_loop orig dir ss (sphere_step orig dir s st)"

definition scene_intersect :: "Sphere list \<Rightarrow> vec3 \<Rightarrow> vec3 \<Rightarrow> bool \<times> vec3 \<times> vec3 \<times> Material" where
  "scene_intersect ss orig dir =
     (case sphere_loop orig dir ss
             (checkerboard_step orig dir (10 ^ 10, Vec3 0 0 0, Vec3 0 0 0, Material_default))
      of (nearest_dist, pt, N, mat) \<Rightarrow> (nearest_dist < 1000, pt, N, mat))"

section \<open>Shading\<close>

text \<open>
  \<^verbatim>\<open>std::pow\<close> on the arguments the program passes: a base that is \<open>max 0 \<dots>\<close>, hence not
  negative, and an exponent that is a material's specular exponent (not negative in every
  material of the program). \<^verbatim>\<open>pow(b, 0)\<close> is \<open>1\<close> for every \<open>b\<close>, also for \<open>b = 0\<close>.
\<close>

definition pow :: "real \<Rightarrow> real \<Rightarrow> real" where
  "pow b e = (if e = 0 then 1 else b powr e)"

definition in_shadow :: "Sphere list \<Rightarrow> vec3 \<Rightarrow> vec3 \<Rightarrow> bool" where
  "in_shadow ss point light =
     (case scene_intersect ss point (normalized (light - point)) of
        (hit, shadow_pt, trashnrm, trashmat) \<Rightarrow>
          hit \<and> norm_v (shadow_pt - point) < norm_v (light - point))"

fun light_loop ::
  "Sphere list \<Rightarrow> vec3 \<Rightarrow> vec3 \<Rightarrow> vec3 \<Rightarrow> Material \<Rightarrow> vec3 list \<Rightarrow> real \<times> real \<Rightarrow> real \<times> real" where
  "light_loop ss point N dir mat [] acc = acc"
| "light_loop ss point N dir mat (light # ls) (diffuse_light_intensity, specular_light_intensity) =
     (let light_dir = normalized (light - point)
      in if in_shadow ss point light
         then light_loop ss point N dir mat ls (diffuse_light_intensity, specular_light_intensity)
         else light_loop ss point N dir mat ls
                (diffuse_light_intensity + max 0 (dot light_dir N),
                 specular_light_intensity
                 + pow (max 0 (dot (- reflect (- light_dir) N) dir)) (specular_exponent mat)))"

text \<open>The returned sum of the four weighted contributions.\<close>

definition shade :: "Material \<Rightarrow> real \<times> real \<Rightarrow> vec3 \<Rightarrow> vec3 \<Rightarrow> vec3" where
  "shade mat intensity reflect_color refract_color =
     scale (scale (diffuse_color mat) (fst intensity)) (albedo mat ! 0)
     + scale (scale (Vec3 1 1 1) (snd intensity)) (albedo mat ! 1)
     + scale reflect_color (albedo mat ! 2)
     + scale refract_color (albedo mat ! 3)"

function cast_ray :: "Sphere list \<Rightarrow> vec3 \<Rightarrow> vec3 \<Rightarrow> int \<Rightarrow> vec3" where
  "cast_ray ss orig dir depth =
     (case scene_intersect ss orig dir of (hit, point, N, mat) \<Rightarrow>
        if depth > 4 \<or> \<not> hit then Vec3 (2/10) (7/10) (8/10)
        else shade mat (light_loop ss point N dir mat lights (0, 0))
               (cast_ray ss point (normalized (reflect dir N)) (depth + 1))
               (cast_ray ss point (normalized (refract dir N (refractive_index mat) 1))
                  (depth + 1)))"
  by pat_completeness auto
termination
  by (relation "measure (\<lambda>(ss, orig, dir, depth). nat (5 - depth))") auto

declare cast_ray.simps [simp del]

text \<open>
  Instrumentation of the same recursion: the \<^verbatim>\<open>depth\<close> argument of every evaluation of
  \<^verbatim>\<open>cast_ray\<close> that one call performs, itself first, then those of the reflection branch,
  then those of the refraction branch.
\<close>

function cast_ray_depths :: "Sphere list \<Rightarrow> vec3 \<Rightarrow> vec3 \<Rightarrow> int \<Rightarrow> int list" where
  "cast_ray_depths ss orig dir depth =
     (case scene_intersect ss orig dir of (hit, point, N, mat) \<Rightarrow>
        if depth > 4 \<or> \<not> hit then [depth]
        else depth
             # cast_ray_depths ss point (normalized (reflect dir N)) (depth + 1)
             @ cast_ray_depths ss point (normalized (refract dir N (refractive_index mat) 1))
                 (depth + 1))"
  by pat_completeness auto
termination
  by (relation "measure (\<lambda>(ss, orig, dir, depth). nat (5 - depth))") auto

declare cast_ray_depths.simps [simp del]

section \<open>Properties\<close>

lemmas vec3_defs = scale_def dot_def plus_vec3_def minus_vec3_def uminus_vec3_def

lemma norm_v_sq: "norm_v a * norm_v a = dot a a"
  by (simp add: norm_v_def dot_def)

lemma norm_v_unit_iff: "norm_v a = 1 \<longleftrightarrow> dot a a = 1"
  by (simp add: norm_v_def dot_def)

subsection \<open>Auxiliary facts\<close>

lemma sqrt_eqI: "0 \<le> y \<Longrightarrow> y * y = x \<Longrightarrow> sqrt x = y"
  by (rule real_sqrt_unique) (simp_all add: power2_eq_square)

lemma reflect_back: "reflect I N - scale (scale N 2) (- dot I N) = I"
proof (cases I; cases N)
  fix a b c d e f
  assume "I = Vec3 a b c" and "N = Vec3 d e f"
  then show ?thesis
    by (simp only: reflect_def vec3_defs vec3.sel) (simp add: algebra_simps)
qed

lemma reflect_twice:
  assumes "dot N N = 1"
  shows "reflect (reflect I N) N = I"
proof -
  have "dot (reflect I N) N = dot I N - 2 * dot I N * dot N N"
    by (simp add: reflect_def vec3_defs algebra_simps)
  with assms have d: "dot (reflect I N) N = - dot I N"
    by simp
  have "reflect (reflect I N) N = reflect I N - scale (scale N 2) (- dot I N)"
    by (subst reflect_def) (simp only: d)
  also have "\<dots> = I"
    by (rule reflect_back)
  finally show ?thesis .
qed

lemma dot_reflect_self:
  assumes "dot N N = 1"
  shows "dot (reflect I N) (reflect I N) = dot I I"
proof -
  have "dot (reflect I N) (reflect I N)
      = dot I I - 4 * dot I N * dot I N + 4 * dot I N * dot I N * dot N N"
    by (simp add: reflect_def vec3_defs algebra_simps)
  then show ?thesis using assms by simp
qed

lemma ray_point_dist:
  "dot (orig + scale dir t - c) (orig + scale dir t - c)
     = t * t * dot dir dir - 2 * t * dot (c - orig) dir + dot (c - orig) (c - orig)"
  by (simp add: vec3_defs algebra_simps)

lemma ray_point_on_sphere:
  assumes "dot dir dir = 1"
    and "dot (c - orig) (c - orig) - dot (c - orig) dir * dot (c - orig) dir \<le> r2"
    and "t = dot (c - orig) dir - sqrt (r2 - (dot (c - orig) (c - orig) - dot (c - orig) dir * dot (c - orig) dir))
       \<or> t = dot (c - orig) dir + sqrt (r2 - (dot (c - orig) (c - orig) - dot (c - orig) dir * dot (c - orig) dir))"
  shows "dot (orig + scale dir t - c) (orig + scale dir t - c) = r2"
proof -
  define tca where "tca = dot (c - orig) dir"
  define d2 where "d2 = dot (c - orig) (c - orig) - tca * tca"
  define thc where "thc = sqrt (r2 - d2)"
  have thc2: "thc * thc = r2 - d2"
    using assms(2) by (simp add: thc_def d2_def tca_def)
  have t: "t = tca - thc \<or> t = tca + thc"
    using assms(3) by (simp add: thc_def d2_def tca_def)
  have "dot (orig + scale dir t - c) (orig + scale dir t - c)
      = t * t - 2 * t * tca + (d2 + tca * tca)"
    using assms(1) by (simp add: ray_point_dist tca_def d2_def)
  also have "\<dots> = (t - tca) * (t - tca) + d2"
    by (simp add: algebra_simps)
  also have "\<dots> = thc * thc + d2"
    using t by auto
  finally show ?thesis
    using thc2 by simp
qed

subsection \<open>Reflection\<close>

text \<open>
  C9. For every unit vector \<open>N\<close> and every unit incident vector \<open>I\<close>, \<open>reflect I N\<close> is
  again of unit length, and reflecting twice about the same unit normal gives \<open>I\<close> back.
\<close>

theorem reflect_unit_involution:
  assumes "norm_v N = 1" and "norm_v I = 1"
  shows "norm_v (reflect I N) = 1 \<and> reflect (reflect I N) N = I"
proof -
  from assms have N: "dot N N = 1" and I: "dot I I = 1"
    by (simp_all add: norm_v_unit_iff)
  have "norm_v (reflect I N) = 1"
    using dot_reflect_self [OF N, of I] I by (simp add: norm_v_unit_iff)
  then show ?thesis
    using reflect_twice [OF N] by simp
qed

theorem reflect_unit_involution_witness:
  "norm_v (Vec3 0 1 0) = 1 \<and> norm_v (Vec3 (3/5) (-4/5) 0) = 1
   \<and> norm_v (reflect (Vec3 (3/5) (-4/5) 0) (Vec3 0 1 0)) = 1
   \<and> reflect (reflect (Vec3 (3/5) (-4/5) 0) (Vec3 0 1 0)) (Vec3 0 1 0) = Vec3 (3/5) (-4/5) 0"
proof -
  have n: "norm_v (Vec3 0 1 0) = 1"
    by (simp add: norm_v_def)
  have i: "norm_v (Vec3 (3/5) (-4/5) 0) = 1"
    by (simp add: norm_v_unit_iff dot_def)
  show ?thesis
    using reflect_unit_involution [OF n i] n i by simp
qed

subsection \<open>Ray-sphere intersection\<close>

text \<open>
  C5. For a unit direction, with \<open>L = center - orig\<close>, \<open>tca = L \<cdot> dir\<close> and
  \<open>d2 = L \<cdot> L - tca\<^sup>2\<close>: \<^verbatim>\<open>ray_sphere_intersect\<close> reports no hit when \<open>d2\<close> exceeds
  \<open>radius\<^sup>2\<close>; otherwise \<open>t0 \<le> t1\<close> are distances at which the ray meets the sphere, and the
  result is a hit at \<open>t0\<close> if \<open>t0 > 0.001\<close>, else a hit at \<open>t1\<close> if \<open>t1 > 0.001\<close>, else no hit.
\<close>

theorem ray_sphere_intersect_cases:
  assumes "norm_v dir = 1"
  shows
    "let L = center s - orig; tca = dot L dir; d2 = dot L L - tca * tca;
         r2 = radius s * radius s; thc = sqrt (r2 - d2); t0 = tca - thc; t1 = tca + thc
     in (d2 > r2 \<longrightarrow> ray_sphere_intersect orig dir s = (False, 0)) \<and>
        (\<not> d2 > r2 \<longrightarrow>
           t0 \<le> t1 \<and>
           dot (orig + scale dir t0 - center s) (orig + scale dir t0 - center s) = r2 \<and>
           dot (orig + scale dir t1 - center s) (orig + scale dir t1 - center s) = r2 \<and>
           ray_sphere_intersect orig dir s =
             (if t0 > 1/1000 then (True, t0) else if t1 > 1/1000 then (True, t1) else (False, 0)))"
proof -
  from assms have u: "dot dir dir = 1"
    by (simp add: norm_v_unit_iff)
  show ?thesis
    unfolding Let_def
  proof (intro conjI impI)
    show "ray_sphere_intersect orig dir s = (False, 0)"
      if "dot (center s - orig) (center s - orig)
            - dot (center s - orig) dir * dot (center s - orig) dir > radius s * radius s"
      using that by (simp add: ray_sphere_intersect_def Let_def)
  next
    assume le: "\<not> dot (center s - orig) (center s - orig)
            - dot (center s - orig) dir * dot (center s - orig) dir > radius s * radius s"
    then have le': "dot (center s - orig) (center s - orig)
            - dot (center s - orig) dir * dot (center s - orig) dir \<le> radius s * radius s"
      by simp
    show "dot (center s - orig) dir - sqrt (radius s * radius s - (dot (center s - orig) (center s - orig)
            - dot (center s - orig) dir * dot (center s - orig) dir))
          \<le> dot (center s - orig) dir + sqrt (radius s * radius s - (dot (center s - orig) (center s - orig)
            - dot (center s - orig) dir * dot (center s - orig) dir))"
      using le' by simp
    show "dot (orig + scale dir (dot (center s - orig) dir - sqrt (radius s * radius s - (dot (center s - orig) (center s - orig)
            - dot (center s - orig) dir * dot (center s - orig) dir))) - center s)
              (orig + scale dir (dot (center s - orig) dir - sqrt (radius s * radius s - (dot (center s - orig) (center s - orig)
            - dot (center s - orig) dir * dot (center s - orig) dir))) - center s) = radius s * radius s"
      by (rule ray_point_on_sphere [OF u le']) simp
    show "dot (orig + scale dir (dot (center s - orig) dir + sqrt (radius s * radius s - (dot (center s - orig) (center s - orig)
            - dot (center s - orig) dir * dot (center s - orig) dir))) - center s)
              (orig + scale dir (dot (center s - orig) dir + sqrt (radius s * radius s - (dot (center s - orig) (center s - orig)
            - dot (center s - orig) dir * dot (center s - orig) dir))) - center s) = radius s * radius s"
      by (rule ray_point_on_sphere [OF u le']) simp
    show "ray_sphere_intersect orig dir s =
      (if 1 / 1000 < dot (center s - orig) dir - sqrt (radius s * radius s - (dot (center s - orig) (center s - orig)
            - dot (center s - orig) dir * dot (center s - orig) dir))
       then (True, dot (center s - orig) dir - sqrt (radius s * radius s - (dot (center s - orig) (center s - orig)
            - dot (center s - orig) dir * dot (center s - orig) dir)))
       else if 1 / 1000 < dot (center s - orig) dir + sqrt (radius s * radius s - (dot (center s - orig) (center s - orig)
            - dot (center s - orig) dir * dot (center s - orig) dir))
       then (True, dot (center s - orig) dir + sqrt (radius s * radius s - (dot (center s - orig) (center s - orig)
            - dot (center s - orig) dir * dot (center s - orig) dir)))
       else (False, 0))"
      using le by (simp add: ray_sphere_intersect_def Let_def)
  qed
qed

theorem ray_sphere_intersect_cases_witness:
  "norm_v (Vec3 (- (7/25)) 0 (- (24/25))) = 1
   \<and> ray_sphere_intersect (Vec3 0 0 0) (Vec3 (- (7/25)) 0 (- (24/25))) (spheres ! 0) = (True, 15)
   \<and> dot (Vec3 0 0 0 + scale (Vec3 (- (7/25)) 0 (- (24/25))) 15 - center (spheres ! 0))
          (Vec3 0 0 0 + scale (Vec3 (- (7/25)) 0 (- (24/25))) 15 - center (spheres ! 0)) = 4
   \<and> ray_sphere_intersect (Vec3 0 0 0) (Vec3 (- (7/25)) 0 (- (24/25))) (spheres ! 1) = (False, 0)"
proof -
  have h: "norm_v (Vec3 (- (7/25)) 0 (- (24/25))) = 1"
    by (simp add: norm_v_unit_iff dot_def)
  have sq: "sqrt (36/25) = 6/5"
    by (rule sqrt_eqI) simp_all
  have a: "ray_sphere_intersect (Vec3 0 0 0) (Vec3 (- (7/25)) 0 (- (24/25))) (spheres ! 0) = (True, 15)
    \<and> dot (Vec3 0 0 0 + scale (Vec3 (- (7/25)) 0 (- (24/25))) 15 - center (spheres ! 0))
          (Vec3 0 0 0 + scale (Vec3 (- (7/25)) 0 (- (24/25))) 15 - center (spheres ! 0)) = 4"
    using ray_sphere_intersect_cases
      [OF h, where s = "spheres ! 0" and orig = "Vec3 0 0 0"]
    by (simp add: Let_def spheres_def vec3_defs sq)
  have b: "ray_sphere_intersect (Vec3 0 0 0) (Vec3 (- (7/25)) 0 (- (24/25))) (spheres ! 1) = (False, 0)"
    using ray_sphere_intersect_cases
      [OF h, where s = "spheres ! 1" and orig = "Vec3 0 0 0"]
    by (simp add: Let_def spheres_def vec3_defs)
  show ?thesis
    using h a b by simp
qed

subsection \<open>Refraction under total internal reflection\<close>

text \<open>
  C2 as stated, refuted: when the discriminant is negative \<^verbatim>\<open>refract\<close> does not return
  the incident direction. A ray leaving glass (index \<open>3/2\<close>) along \<open>I = (0, 1, 0)\<close> through a
  surface with outward normal \<open>(4/5, 3/5, 0)\<close> has a negative discriminant and is sent to
  \<open>(1, 0, 0)\<close>.
\<close>

theorem refract_total_reflection_counterexample:
  "refract_cosi (Vec3 0 1 0) (Vec3 (4/5) (3/5) 0) < 0
   \<and> refract_k ((3/2) / 1) (refract_cosi (Vec3 0 1 0) (- Vec3 (4/5) (3/5) 0)) < 0
   \<and> refract (Vec3 0 1 0) (Vec3 (4/5) (3/5) 0) (3/2) 1 = Vec3 1 0 0
   \<and> refract (Vec3 0 1 0) (Vec3 (4/5) (3/5) 0) (3/2) 1 \<noteq> Vec3 0 1 0"
proof -
  have c1: "refract_cosi (Vec3 0 1 0) (Vec3 (4/5) (3/5) 0) = - (3/5)"
    by (simp add: refract_cosi_def vec3_defs)
  have c2: "refract_cosi (Vec3 0 1 0) (- Vec3 (4/5) (3/5) 0) = 3/5"
    by (simp add: refract_cosi_def vec3_defs)
  have k: "refract_k ((3/2) / 1) (3/5) < 0"
    by (simp add: refract_k_def)
  have "refract (Vec3 0 1 0) (Vec3 (4/5) (3/5) 0) (3/2) 1
      = refract (Vec3 0 1 0) (- Vec3 (4/5) (3/5) 0) 1 (3/2)"
    by (subst refract.simps) (simp add: c1)
  also have "\<dots> = Vec3 1 0 0"
    using k by (subst refract.simps) (simp add: c2)
  finally have r: "refract (Vec3 0 1 0) (Vec3 (4/5) (3/5) 0) (3/2) 1 = Vec3 1 0 0" .
  show ?thesis
    using k by (simp add: c1 c2 r)
qed

text \<open>
  C2 as amended. When the discriminant is negative, in the direct evaluation or in the one with
  the normal negated and the indices swapped, \<^verbatim>\<open>refract\<close> returns the fixed vector
  \<open>(1, 0, 0)\<close>.
\<close>

theorem refract_total_reflection:
  "(\<not> refract_cosi I N < 0 \<and> refract_k (eta_i / eta_t) (refract_cosi I N) < 0
      \<longrightarrow> refract I N eta_t eta_i = Vec3 1 0 0) \<and>
   (refract_cosi I N < 0 \<and> refract_k (eta_t / eta_i) (refract_cosi I (- N)) < 0
      \<longrightarrow> refract I N eta_t eta_i = Vec3 1 0 0)"
proof (intro conjI impI)
  assume "\<not> refract_cosi I N < 0 \<and> refract_k (eta_i / eta_t) (refract_cosi I N) < 0"
  then show "refract I N eta_t eta_i = Vec3 1 0 0"
    by (simp add: refract.simps [of I N])
next
  assume a: "refract_cosi I N < 0 \<and> refract_k (eta_t / eta_i) (refract_cosi I (- N)) < 0"
  have "dot I (- N) = - dot I N"
    by (simp add: dot_def uminus_vec3_def)
  with a have nn: "\<not> refract_cosi I (- N) < 0"
    by (simp add: refract_cosi_def min_def max_def split: if_splits)
  from a have "refract I N eta_t eta_i = refract I (- N) eta_i eta_t"
    by (simp add: refract.simps [of I N])
  also from a nn have "\<dots> = Vec3 1 0 0"
    by (simp add: refract.simps [of I "- N"])
  finally show "refract I N eta_t eta_i = Vec3 1 0 0" .
qed

theorem refract_total_reflection_witness:
  "refract_cosi (Vec3 0 1 0) (Vec3 (4/5) (3/5) 0) < 0
   \<and> refract_k ((3/2) / 1) (refract_cosi (Vec3 0 1 0) (- Vec3 (4/5) (3/5) 0)) < 0
   \<and> refract (Vec3 0 1 0) (Vec3 (4/5) (3/5) 0) (3/2) 1 = Vec3 1 0 0
   \<and> \<not> refract_cosi (Vec3 0 1 0) (Vec3 (- (4/5)) (- (3/5)) 0) < 0
   \<and> refract_k ((3/2) / 1) (refract_cosi (Vec3 0 1 0) (Vec3 (- (4/5)) (- (3/5)) 0)) < 0
   \<and> refract (Vec3 0 1 0) (Vec3 (- (4/5)) (- (3/5)) 0) 1 (3/2) = Vec3 1 0 0"
proof -
  have c1: "refract_cosi (Vec3 0 1 0) (Vec3 (4/5) (3/5) 0) < 0"
    by (simp add: refract_cosi_def vec3_defs)
  have c2: "refract_cosi (Vec3 0 1 0) (- Vec3 (4/5) (3/5) 0) = 3/5"
    by (simp add: refract_cosi_def vec3_defs)
  have c3: "refract_cosi (Vec3 0 1 0) (Vec3 (- (4/5)) (- (3/5)) 0) = 3/5"
    by (simp add: refract_cosi_def vec3_defs)
  have k: "refract_k ((3/2) / 1) (3/5) < 0"
    by (simp add: refract_k_def)
  have r1: "refract (Vec3 0 1 0) (Vec3 (4/5) (3/5) 0) (3/2) 1 = Vec3 1 0 0"
    using refract_total_reflection
      [where I = "Vec3 0 1 0" and N = "Vec3 (4/5) (3/5) 0" and eta_t = "3/2" and eta_i = 1]
      c1 k by (simp only: c2 simp_thms)
  have r2: "refract (Vec3 0 1 0) (Vec3 (- (4/5)) (- (3/5)) 0) 1 (3/2) = Vec3 1 0 0"
    using refract_total_reflection
      [where I = "Vec3 0 1 0" and N = "Vec3 (- (4/5)) (- (3/5)) 0" and eta_t = 1 and eta_i = "3/2"]
      k by (simp add: c3)
  show ?thesis
    using c1 k r1 r2 by (simp only: c2 c3 simp_thms)
qed

subsection \<open>Background colour\<close>



lemma checkerboard_step_miss:
  "\<not> plane_hit orig dir nd \<Longrightarrow> checkerboard_step orig dir (nd, pt, N, mat) = (nd, pt, N, mat)"
  by (simp add: checkerboard_step_def)



lemma spheres_mem:
  "spheres ! 0 \<in> set spheres" "spheres ! 1 \<in> set spheres"
  "spheres ! 2 \<in> set spheres" "spheres ! 3 \<in> set spheres"
  by (simp_all add: spheres_def)




subsection \<open>Checkerboard colour\<close>

lemma and_1_odd: "(k::int) AND 1 \<noteq> 0 \<longleftrightarrow> odd k"
  by (simp add: and_one_eq odd_iff_mod_2_eq_one)

lemma board_x:
  assumes "in_board p"
  shows "int_of_double (5/10 * vx p + 1000) = \<lfloor>vx p / 2\<rfloor> + 1000"
proof -
  from assms have "0 \<le> 5/10 * vx p + 1000"
    by (simp add: in_board_def abs_less_iff)
  then have "int_of_double (5/10 * vx p + 1000) = \<lfloor>5/10 * vx p + 1000\<rfloor>"
    by (simp only: int_of_double_def if_True)
  also have "\<dots> = \<lfloor>vx p / 2\<rfloor> + 1000"
    by simp
  finally show ?thesis .
qed

lemma board_z:
  assumes "in_board p"
  shows "int_of_double (5/10 * vz p) = \<lceil>vz p / 2\<rceil>"
proof -
  from assms have "\<not> 0 \<le> 5/10 * vz p"
    by (simp add: in_board_def)
  then have "int_of_double (5/10 * vz p) = \<lceil>5/10 * vz p\<rceil>"
    by (simp only: int_of_double_def if_False)
  then show ?thesis
    by simp
qed

lemma checker_color_board:
  "in_board p \<Longrightarrow> checker_color p =
     (if odd (\<lfloor>vx p / 2\<rfloor> + \<lceil>vz p / 2\<rceil>) then Vec3 (3/10) (3/10) (3/10)
      else Vec3 (3/10) (2/10) (1/10))"
  by (simp only: checker_color_def and_1_odd board_x board_z) simp

text \<open>
  C4 as stated, refuted. The points \<open>(x = 0, z = -15)\<close> and \<open>(x = 0.6, z = -15)\<close> lie in the
  same cell: they get the same shade, and \<open>\<lfloor>0.5 x\<rfloor> + \<lfloor>0.5 z\<rfloor>\<close> is even for both. Moreover the
  shade is not a function of the parity of \<open>\<lfloor>0.5 x\<rfloor> + \<lfloor>0.5 z\<rfloor>\<close>: the points \<open>(0, -12)\<close> and
  \<open>(0, -13)\<close> get the same shade although that parity differs, because \<^verbatim>\<open>int(.5 * pt.z)\<close>
  truncates toward zero and only the \<open>x\<close> term carries the offset \<open>1000\<close>.
\<close>

theorem checker_color_class_counterexample:
  "in_board (Vec3 0 (-4) (-15)) \<and> in_board (Vec3 (6/10) (-4) (-15))
   \<and> checker_color (Vec3 0 (-4) (-15)) = checker_color (Vec3 (6/10) (-4) (-15))
   \<and> even (\<lfloor>5/10 * (0::real)\<rfloor> + \<lfloor>5/10 * (-15::real)\<rfloor>)
   \<and> even (\<lfloor>5/10 * (6/10::real)\<rfloor> + \<lfloor>5/10 * (-15::real)\<rfloor>)
   \<and> in_board (Vec3 0 (-4) (-12)) \<and> in_board (Vec3 0 (-4) (-13))
   \<and> checker_color (Vec3 0 (-4) (-12)) = checker_color (Vec3 0 (-4) (-13))
   \<and> even (\<lfloor>5/10 * (0::real)\<rfloor> + \<lfloor>5/10 * (-12::real)\<rfloor>)
   \<and> odd (\<lfloor>5/10 * (0::real)\<rfloor> + \<lfloor>5/10 * (-13::real)\<rfloor>)"
  by (simp add: in_board_def checker_color_def int_of_double_def and_1_odd)

text \<open>
  C4 as amended. At every point of the checkerboard region the shade is \<open>(0.3, 0.3, 0.3)\<close> when
  \<open>\<lfloor>x / 2\<rfloor> + \<lceil>z / 2\<rceil>\<close> is odd and \<open>(0.3, 0.2, 0.1)\<close> when it is even; two points of the region
  that differ by \<open>2\<close> in \<open>x\<close> alone, or by \<open>2\<close> in \<open>z\<close> alone, get different shades.
\<close>

theorem checker_color_class:
  assumes "in_board p" and "in_board q"
  shows "checker_color p =
           (if odd (\<lfloor>vx p / 2\<rfloor> + \<lceil>vz p / 2\<rceil>) then Vec3 (3/10) (3/10) (3/10)
            else Vec3 (3/10) (2/10) (1/10))
         \<and> (vx q = vx p + 2 \<and> vz q = vz p \<longrightarrow> checker_color q \<noteq> checker_color p)
         \<and> (vx q = vx p \<and> vz q = vz p + 2 \<longrightarrow> checker_color q \<noteq> checker_color p)"
proof (intro conjI impI)
  show "checker_color p =
           (if odd (\<lfloor>vx p / 2\<rfloor> + \<lceil>vz p / 2\<rceil>) then Vec3 (3/10) (3/10) (3/10)
            else Vec3 (3/10) (2/10) (1/10))"
    by (rule checker_color_board [OF assms(1)])
next
  assume a: "vx q = vx p + 2 \<and> vz q = vz p"
  have "\<lfloor>vx q / 2\<rfloor> = \<lfloor>vx p / 2\<rfloor> + 1"
    using a by (simp add: add_divide_distrib)
  then show "checker_color q \<noteq> checker_color p"
    using a by (simp add: checker_color_board assms)
next
  assume a: "vx q = vx p \<and> vz q = vz p + 2"
  have "\<lceil>vz q / 2\<rceil> = \<lceil>vz p / 2\<rceil> + 1"
    using a by (simp add: add_divide_distrib)
  then show "checker_color q \<noteq> checker_color p"
    using a by (simp add: checker_color_board assms)
qed

theorem checker_color_class_witness:
  "in_board (Vec3 0 (-4) (-15)) \<and> in_board (Vec3 2 (-4) (-15)) \<and> in_board (Vec3 0 (-4) (-13))
   \<and> checker_color (Vec3 0 (-4) (-15)) = Vec3 (3/10) (3/10) (3/10)
   \<and> checker_color (Vec3 2 (-4) (-15)) \<noteq> checker_color (Vec3 0 (-4) (-15))
   \<and> checker_color (Vec3 0 (-4) (-13)) \<noteq> checker_color (Vec3 0 (-4) (-15))"
proof -
  have b: "in_board (Vec3 0 (-4) (-15))" "in_board (Vec3 2 (-4) (-15))"
    "in_board (Vec3 0 (-4) (-13))"
    by (simp_all add: in_board_def)
  show ?thesis
    using checker_color_class [OF b(1) b(2)] checker_color_class [OF b(1) b(3)] b
    by auto
qed

subsection \<open>Material of a checkerboard hit\<close>

lemma sphere_step_skip:
  "\<not> fst (ray_sphere_intersect orig dir s) \<or> snd (ray_sphere_intersect orig dir s) > nd
   \<Longrightarrow> sphere_step orig dir s (nd, pt, N, mat) = (nd, pt, N, mat)"
  by (auto simp add: sphere_step_def split: prod.splits)

lemma sphere_loop_all_skip:
  "\<forall>s\<in>set ss. \<not> fst (ray_sphere_intersect orig dir s) \<or> snd (ray_sphere_intersect orig dir s) > nd
   \<Longrightarrow> sphere_loop orig dir ss (nd, pt, N, mat) = (nd, pt, N, mat)"
  by (induction ss) (simp_all add: sphere_step_skip)

lemma scene_intersect_plane:
  assumes "plane_hit orig dir (10 ^ 10)"
    and "\<forall>s\<in>set ss. \<not> fst (ray_sphere_intersect orig dir s)
           \<or> snd (ray_sphere_intersect orig dir s) > plane_d orig dir"
  shows "scene_intersect ss orig dir =
           (plane_d orig dir < 1000, orig + scale dir (plane_d orig dir), Vec3 0 1 0,
            Material_default\<lparr>diffuse_color := checker_color (orig + scale dir (plane_d orig dir))\<rparr>)"
  using assms
  by (simp add: scene_intersect_def checkerboard_step_def Let_def sphere_loop_all_skip)

lemma rsi_down:
  "\<forall>s\<in>set spheres. \<not> fst (ray_sphere_intersect (Vec3 0 0 (-15)) (Vec3 0 (-1) 0) s)"
  by (simp add: spheres_def ray_sphere_intersect_def Let_def vec3_defs)

text \<open>
  C10. When the checkerboard test accepts the ray and no sphere replaces that hit,
  \<^verbatim>\<open>scene_intersect\<close> returns the default material with only the diffuse colour changed:
  refractive index \<open>1\<close>, specular exponent \<open>0\<close>, albedo \<open>{2, 0, 0, 0}\<close>; so \<^verbatim>\<open>cast_ray\<close>
  weights the diffuse term by \<open>2\<close> and the specular, reflection and refraction terms by \<open>0\<close>.
\<close>

theorem checkerboard_hit_material:
  assumes "plane_hit orig dir (10 ^ 10)"
    and "\<forall>s\<in>set ss. \<not> fst (ray_sphere_intersect orig dir s)
           \<or> snd (ray_sphere_intersect orig dir s) > plane_d orig dir"
    and "p = orig + scale dir (plane_d orig dir)"
    and "mat = Material_default\<lparr>diffuse_color := checker_color p\<rparr>"
  shows "scene_intersect ss orig dir = (plane_d orig dir < 1000, p, Vec3 0 1 0, mat)
         \<and> refractive_index mat = 1 \<and> specular_exponent mat = 0 \<and> albedo mat = [2, 0, 0, 0]
         \<and> (plane_d orig dir < 1000 \<and> depth \<le> 4 \<longrightarrow>
              cast_ray ss orig dir depth =
                scale (scale (checker_color p)
                         (fst (light_loop ss p (Vec3 0 1 0) dir mat lights (0, 0)))) 2
                + scale (scale (Vec3 1 1 1)
                           (snd (light_loop ss p (Vec3 0 1 0) dir mat lights (0, 0)))) 0
                + scale (cast_ray ss p (normalized (reflect dir (Vec3 0 1 0))) (depth + 1)) 0
                + scale (cast_ray ss p (normalized (refract dir (Vec3 0 1 0) 1 1)) (depth + 1)) 0)"
proof -
  have si: "scene_intersect ss orig dir = (plane_d orig dir < 1000, p, Vec3 0 1 0, mat)"
    using scene_intersect_plane [OF assms(1,2)] assms(3,4) by simp
  have m: "refractive_index mat = 1" "specular_exponent mat = 0" "albedo mat = [2, 0, 0, 0]"
    "diffuse_color mat = checker_color p"
    using assms(4) by (simp_all add: Material_default_def)
  have "cast_ray ss orig dir depth =
                scale (scale (checker_color p)
                         (fst (light_loop ss p (Vec3 0 1 0) dir mat lights (0, 0)))) 2
                + scale (scale (Vec3 1 1 1)
                           (snd (light_loop ss p (Vec3 0 1 0) dir mat lights (0, 0)))) 0
                + scale (cast_ray ss p (normalized (reflect dir (Vec3 0 1 0))) (depth + 1)) 0
                + scale (cast_ray ss p (normalized (refract dir (Vec3 0 1 0) 1 1)) (depth + 1)) 0"
    if "plane_d orig dir < 1000" and "depth \<le> 4"
    using that by (subst cast_ray.simps) (simp add: si shade_def m)
  then show ?thesis
    using si m by simp
qed

theorem checkerboard_hit_material_witness:
  "plane_hit (Vec3 0 0 (-15)) (Vec3 0 (-1) 0) (10 ^ 10)
   \<and> \<not> fst (ray_sphere_intersect (Vec3 0 0 (-15)) (Vec3 0 (-1) 0) (spheres ! 0))
   \<and> \<not> fst (ray_sphere_intersect (Vec3 0 0 (-15)) (Vec3 0 (-1) 0) (spheres ! 1))
   \<and> \<not> fst (ray_sphere_intersect (Vec3 0 0 (-15)) (Vec3 0 (-1) 0) (spheres ! 2))
   \<and> \<not> fst (ray_sphere_intersect (Vec3 0 0 (-15)) (Vec3 0 (-1) 0) (spheres ! 3))
   \<and> plane_d (Vec3 0 0 (-15)) (Vec3 0 (-1) 0) = 4
   \<and> scene_intersect spheres (Vec3 0 0 (-15)) (Vec3 0 (-1) 0) =
        (True, Vec3 0 (-4) (-15), Vec3 0 1 0,
         Material_default\<lparr>diffuse_color := Vec3 (3/10) (3/10) (3/10)\<rparr>)
   \<and> cast_ray spheres (Vec3 0 0 (-15)) (Vec3 0 (-1) 0) 0 =
        scale (scale (Vec3 (3/10) (3/10) (3/10))
                 (fst (light_loop spheres (Vec3 0 (-4) (-15)) (Vec3 0 1 0) (Vec3 0 (-1) 0)
                         (Material_default\<lparr>diffuse_color := Vec3 (3/10) (3/10) (3/10)\<rparr>)
                         lights (0, 0)))) 2
        + scale (scale (Vec3 1 1 1)
                 (snd (light_loop spheres (Vec3 0 (-4) (-15)) (Vec3 0 1 0) (Vec3 0 (-1) 0)
                         (Material_default\<lparr>diffuse_color := Vec3 (3/10) (3/10) (3/10)\<rparr>)
                         lights (0, 0)))) 0
        + scale (cast_ray spheres (Vec3 0 (-4) (-15))
                   (normalized (reflect (Vec3 0 (-1) 0) (Vec3 0 1 0))) (0 + 1)) 0
        + scale (cast_ray spheres (Vec3 0 (-4) (-15))
                   (normalized (refract (Vec3 0 (-1) 0) (Vec3 0 1 0) 1 1)) (0 + 1)) 0"
proof -
  have d: "plane_d (Vec3 0 0 (-15)) (Vec3 0 (-1) 0) = 4"
    by (simp add: plane_d_def)
  have p: "Vec3 0 0 (-15) + scale (Vec3 0 (-1) 0) 4 = Vec3 0 (-4) (-15)"
    by (simp add: vec3_defs)
  have h: "plane_hit (Vec3 0 0 (-15)) (Vec3 0 (-1) 0) (10 ^ 10)"
    by (simp add: plane_hit_def d p Let_def in_board_def)
  have c: "checker_color (Vec3 0 (-4) (-15)) = Vec3 (3/10) (3/10) (3/10)"
    by (simp add: checker_color_def int_of_double_def and_one_eq)
  have s: "\<forall>s\<in>set spheres. \<not> fst (ray_sphere_intersect (Vec3 0 0 (-15)) (Vec3 0 (-1) 0) s)
           \<or> snd (ray_sphere_intersect (Vec3 0 0 (-15)) (Vec3 0 (-1) 0) s)
              > plane_d (Vec3 0 0 (-15)) (Vec3 0 (-1) 0)"
    using rsi_down by blast
  have m: "\<not> fst (ray_sphere_intersect (Vec3 0 0 (-15)) (Vec3 0 (-1) 0) (spheres ! 0))"
    "\<not> fst (ray_sphere_intersect (Vec3 0 0 (-15)) (Vec3 0 (-1) 0) (spheres ! 1))"
    "\<not> fst (ray_sphere_intersect (Vec3 0 0 (-15)) (Vec3 0 (-1) 0) (spheres ! 2))"
    "\<not> fst (ray_sphere_intersect (Vec3 0 0 (-15)) (Vec3 0 (-1) 0) (spheres ! 3))"
    using rsi_down spheres_mem by blast+
  show ?thesis
    using checkerboard_hit_material [OF h s, of "Vec3 0 (-4) (-15)"
        "Material_default\<lparr>diffuse_color := Vec3 (3/10) (3/10) (3/10)\<rparr>" 0] h m
    by (simp add: d p c)
qed

subsection \<open>Direct lighting and shadows\<close>

lemma light_loop_sums:
  "light_loop ss point N dir mat ls (a, b) =
     (a + (\<Sum>light\<leftarrow>ls. if in_shadow ss point light then 0
                          else max 0 (dot (normalized (light - point)) N)),
      b + (\<Sum>light\<leftarrow>ls. if in_shadow ss point light then 0
                          else pow (max 0 (dot (- reflect (- normalized (light - point)) N) dir))
                                 (specular_exponent mat)))"
  by (induction ls arbitrary: a b) (simp_all add: Let_def)

lemmas scene_eval = scene_intersect_def checkerboard_step_def plane_hit_def plane_d_def in_board_def
  spheres_def sphere_step_def ray_sphere_intersect_def Let_def vec3_defs normalized_def norm_v_def

lemma primary_hit:
  "scene_intersect spheres (Vec3 0 0 0) (Vec3 (- (7/25)) 0 (- (24/25)))
     = (True, Vec3 (- (21/5)) 0 (- (72/5)), Vec3 (- (3/5)) 0 (4/5), ivory)"
proof -
  have sq: "sqrt (36/25) = 6/5"
    by (rule sqrt_eqI) simp_all
  show ?thesis
    by (simp add: scene_eval sq)
qed

text \<open>
  C6. At a hit that is shaded (\<open>depth \<le> 4\<close>), a light contributes nothing when it is in shadow,
  that is when \<^verbatim>\<open>scene_intersect\<close>, called from the hit point toward the light, reports a hit
  whose point is strictly closer to the hit point than the light is; otherwise it adds
  \<open>max 0 (light_dir \<cdot> N)\<close> to the diffuse intensity and
  \<open>pow (max 0 (- reflect (- light_dir) N \<cdot> dir)) specular_exponent\<close> to the specular intensity.
\<close>

theorem cast_ray_lighting:
  assumes "scene_intersect ss orig dir = (True, point, N, mat)" and "depth \<le> 4"
  shows "cast_ray ss orig dir depth =
           shade mat
             ((\<Sum>light\<leftarrow>lights. if in_shadow ss point light then 0
                          else max 0 (dot (normalized (light - point)) N)),
              (\<Sum>light\<leftarrow>lights. if in_shadow ss point light then 0
                          else pow (max 0 (dot (- reflect (- normalized (light - point)) N) dir))
                                 (specular_exponent mat)))
             (cast_ray ss point (normalized (reflect dir N)) (depth + 1))
             (cast_ray ss point (normalized (refract dir N (refractive_index mat) 1)) (depth + 1))
         \<and> (in_shadow ss point l \<longleftrightarrow>
              fst (scene_intersect ss point (normalized (l - point)))
              \<and> norm_v (fst (snd (scene_intersect ss point (normalized (l - point)))) - point)
                  < norm_v (l - point))"
proof
  show "cast_ray ss orig dir depth =
           shade mat
             ((\<Sum>light\<leftarrow>lights. if in_shadow ss point light then 0
                          else max 0 (dot (normalized (light - point)) N)),
              (\<Sum>light\<leftarrow>lights. if in_shadow ss point light then 0
                          else pow (max 0 (dot (- reflect (- normalized (light - point)) N) dir))
                                 (specular_exponent mat)))
             (cast_ray ss point (normalized (reflect dir N)) (depth + 1))
             (cast_ray ss point (normalized (refract dir N (refractive_index mat) 1)) (depth + 1))"
    using assms by (subst cast_ray.simps) (simp add: light_loop_sums)
  show "in_shadow ss point l \<longleftrightarrow>
              fst (scene_intersect ss point (normalized (l - point)))
              \<and> norm_v (fst (snd (scene_intersect ss point (normalized (l - point)))) - point)
                  < norm_v (l - point)"
    by (simp add: in_shadow_def split: prod.splits)
qed

theorem cast_ray_lighting_witness:
  "scene_intersect spheres (Vec3 0 0 0) (Vec3 (- (7/25)) 0 (- (24/25)))
     = (True, Vec3 (- (21/5)) 0 (- (72/5)), Vec3 (- (3/5)) 0 (4/5), ivory)
   \<and> cast_ray spheres (Vec3 0 0 0) (Vec3 (- (7/25)) 0 (- (24/25))) 0 =
       shade ivory
         ((\<Sum>light\<leftarrow>lights. if in_shadow spheres (Vec3 (- (21/5)) 0 (- (72/5))) light then 0
             else max 0 (dot (normalized (light - Vec3 (- (21/5)) 0 (- (72/5)))) (Vec3 (- (3/5)) 0 (4/5)))),
          (\<Sum>light\<leftarrow>lights. if in_shadow spheres (Vec3 (- (21/5)) 0 (- (72/5))) light then 0
             else pow (max 0 (dot (- reflect (- normalized (light - Vec3 (- (21/5)) 0 (- (72/5))))
                                      (Vec3 (- (3/5)) 0 (4/5)))
                                 (Vec3 (- (7/25)) 0 (- (24/25)))))
                    (specular_exponent ivory)))
         (cast_ray spheres (Vec3 (- (21/5)) 0 (- (72/5)))
            (normalized (reflect (Vec3 (- (7/25)) 0 (- (24/25))) (Vec3 (- (3/5)) 0 (4/5)))) (0 + 1))
         (cast_ray spheres (Vec3 (- (21/5)) 0 (- (72/5)))
            (normalized (refract (Vec3 (- (7/25)) 0 (- (24/25))) (Vec3 (- (3/5)) 0 (4/5))
                           (refractive_index ivory) 1)) (0 + 1))"
proof -
  have d: "(0::int) \<le> 4"
    by simp
  show ?thesis
    using cast_ray_lighting [OF primary_hit d] primary_hit by blast
qed

subsection \<open>Nearest-hit selection and ties\<close>

lemma sphere_loop_append:
  "sphere_loop orig dir (xs @ ys) st = sphere_loop orig dir ys (sphere_loop orig dir xs st)"
  by (induction xs arbitrary: st) simp_all

lemma sphere_step_take:
  "ray_sphere_intersect orig dir s = (True, d) \<Longrightarrow> d \<le> fst st
   \<Longrightarrow> sphere_step orig dir s st
       = (d, orig + scale dir d, normalized (orig + scale dir d - center s), material s)"
  by (cases st) (simp add: sphere_step_def)

lemma rsi_near:
  assumes "radius s * radius s
             - (dot (center s - orig) (center s - orig)
                - dot (center s - orig) dir * dot (center s - orig) dir) = q"
    and "0 \<le> q"
    and "1/1000 < dot (center s - orig) dir - sqrt q"
  shows "ray_sphere_intersect orig dir s = (True, dot (center s - orig) dir - sqrt q)"
proof -
  from assms(1,2)
  have "\<not> dot (center s - orig) (center s - orig)
             - dot (center s - orig) dir * dot (center s - orig) dir > radius s * radius s"
    by simp
  then show ?thesis
    using assms(1,3) by (simp add: ray_sphere_intersect_def Let_def)
qed

lemma spheres_nth: "spheres = [spheres ! 0, spheres ! 1, spheres ! 2, spheres ! 3]"
  by (simp add: spheres_def)

lemma tie_ray:
  "ray_sphere_intersect (Vec3 (-2) (- (5/2)) (-18)) (Vec3 (2/7) (6/7) (3/7)) (spheres ! 0)
     = (True, 19/7 - sqrt (23/196))"
  "ray_sphere_intersect (Vec3 (-2) (- (5/2)) (-18)) (Vec3 (2/7) (6/7) (3/7)) (spheres ! 1)
     = (False, 0)"
  "ray_sphere_intersect (Vec3 (-2) (- (5/2)) (-18)) (Vec3 (2/7) (6/7) (3/7)) (spheres ! 2)
     = (True, 19/7 - sqrt (23/196))"
  "ray_sphere_intersect (Vec3 (-2) (- (5/2)) (-18)) (Vec3 (2/7) (6/7) (3/7)) (spheres ! 3)
     = (False, 0)"
proof -
  have lt: "sqrt (23/196) < 1"
    by simp
  then have pos: "1/1000 < 19/7 - sqrt (23/196)"
    by linarith
  have t0: "dot (center (spheres ! 0) - Vec3 (-2) (- (5/2)) (-18)) (Vec3 (2/7) (6/7) (3/7)) = 19/7"
    by (simp add: spheres_def vec3_defs)
  have t2: "dot (center (spheres ! 2) - Vec3 (-2) (- (5/2)) (-18)) (Vec3 (2/7) (6/7) (3/7)) = 19/7"
    by (simp add: spheres_def vec3_defs)
  show "ray_sphere_intersect (Vec3 (-2) (- (5/2)) (-18)) (Vec3 (2/7) (6/7) (3/7)) (spheres ! 0)
     = (True, 19/7 - sqrt (23/196))"
    using rsi_near [where s = "spheres ! 0" and orig = "Vec3 (-2) (- (5/2)) (-18)"
        and dir = "Vec3 (2/7) (6/7) (3/7)" and q = "23/196"] pos
    unfolding t0 by (simp add: spheres_def vec3_defs)
  show "ray_sphere_intersect (Vec3 (-2) (- (5/2)) (-18)) (Vec3 (2/7) (6/7) (3/7)) (spheres ! 2)
     = (True, 19/7 - sqrt (23/196))"
    using rsi_near [where s = "spheres ! 2" and orig = "Vec3 (-2) (- (5/2)) (-18)"
        and dir = "Vec3 (2/7) (6/7) (3/7)" and q = "23/196"] pos
    unfolding t2 by (simp add: spheres_def vec3_defs)
  show "ray_sphere_intersect (Vec3 (-2) (- (5/2)) (-18)) (Vec3 (2/7) (6/7) (3/7)) (spheres ! 1)
     = (False, 0)"
    by (simp add: spheres_def ray_sphere_intersect_def Let_def vec3_defs)
  show "ray_sphere_intersect (Vec3 (-2) (- (5/2)) (-18)) (Vec3 (2/7) (6/7) (3/7)) (spheres ! 3)
     = (False, 0)"
    by (simp add: spheres_def ray_sphere_intersect_def Let_def vec3_defs)
qed

lemma tie_ray_no_plane:
  "\<not> plane_hit (Vec3 (-2) (- (5/2)) (-18)) (Vec3 (2/7) (6/7) (3/7)) nd"
  by (simp add: plane_hit_def plane_d_def Let_def)


lemma tie_ray_scene:
  "scene_intersect spheres (Vec3 (-2) (- (5/2)) (-18)) (Vec3 (2/7) (6/7) (3/7))
     = (True,
        Vec3 (-2) (- (5/2)) (-18) + scale (Vec3 (2/7) (6/7) (3/7)) (19/7 - sqrt (23/196)),
        normalized (Vec3 (-2) (- (5/2)) (-18) + scale (Vec3 (2/7) (6/7) (3/7)) (19/7 - sqrt (23/196))
                    - center (spheres ! 2)),
        material (spheres ! 2))"
proof -
  have "0 \<le> sqrt (23/196)"
    by simp
  then have lt: "19/7 - sqrt (23/196) < 1000"
    by linarith
  show ?thesis
    apply (subst spheres_nth)
    apply (simp only: scene_intersect_def checkerboard_step_miss [OF tie_ray_no_plane]
        sphere_loop.simps sphere_step_def tie_ray prod.case)
    using lt apply simp
    done
qed

text \<open>
  C3 as stated, refuted. In the initial scene the ray from \<open>(-2, -5/2, -18)\<close> with unit direction
  \<open>(2/7, 6/7, 3/7)\<close> meets the first sphere (ivory) and the third sphere (red rubber) at exactly
  the same distance; the plane and the other two spheres are missed. The hit that
  \<^verbatim>\<open>scene_intersect\<close> returns carries the material of the later sphere, red rubber, not that
  of the earlier one.
\<close>

theorem sphere_loop_last_nearest_wins_counterexample:
  "ray_sphere_intersect (Vec3 (-2) (- (5/2)) (-18)) (Vec3 (2/7) (6/7) (3/7)) (spheres ! 0)
     = (True, 19/7 - sqrt (23/196))
   \<and> ray_sphere_intersect (Vec3 (-2) (- (5/2)) (-18)) (Vec3 (2/7) (6/7) (3/7)) (spheres ! 2)
     = (True, 19/7 - sqrt (23/196))
   \<and> \<not> fst (ray_sphere_intersect (Vec3 (-2) (- (5/2)) (-18)) (Vec3 (2/7) (6/7) (3/7))
              (spheres ! 1))
   \<and> \<not> fst (ray_sphere_intersect (Vec3 (-2) (- (5/2)) (-18)) (Vec3 (2/7) (6/7) (3/7))
              (spheres ! 3))
   \<and> \<not> plane_hit (Vec3 (-2) (- (5/2)) (-18)) (Vec3 (2/7) (6/7) (3/7)) (10 ^ 10)
   \<and> norm_v (Vec3 (2/7) (6/7) (3/7)) = 1
   \<and> material (spheres ! 0) = ivory \<and> material (spheres ! 2) = red_rubber
   \<and> ivory \<noteq> red_rubber
   \<and> fst (scene_intersect spheres (Vec3 (-2) (- (5/2)) (-18)) (Vec3 (2/7) (6/7) (3/7)))
   \<and> snd (snd (snd (scene_intersect spheres (Vec3 (-2) (- (5/2)) (-18)) (Vec3 (2/7) (6/7) (3/7)))))
       = red_rubber"
proof -
  have m: "material (spheres ! 0) = ivory" "material (spheres ! 2) = red_rubber"
    by (simp_all add: spheres_def)
  have ne: "ivory \<noteq> red_rubber"
    by (simp add: ivory_def red_rubber_def)
  have u: "norm_v (Vec3 (2/7) (6/7) (3/7)) = 1"
    by (simp add: norm_v_unit_iff dot_def)
  have miss: "\<not> fst (ray_sphere_intersect (Vec3 (-2) (- (5/2)) (-18)) (Vec3 (2/7) (6/7) (3/7))
                     (spheres ! 1))"
    "\<not> fst (ray_sphere_intersect (Vec3 (-2) (- (5/2)) (-18)) (Vec3 (2/7) (6/7) (3/7))
              (spheres ! 3))"
    by (simp_all only: tie_ray fst_conv simp_thms)
  have sc: "fst (scene_intersect spheres (Vec3 (-2) (- (5/2)) (-18)) (Vec3 (2/7) (6/7) (3/7)))"
    "snd (snd (snd (scene_intersect spheres (Vec3 (-2) (- (5/2)) (-18))
                      (Vec3 (2/7) (6/7) (3/7))))) = red_rubber"
    by (simp_all add: tie_ray_scene m)
  show ?thesis
    using tie_ray(1,3) miss tie_ray_no_plane u m ne sc by (intro conjI)
qed

text \<open>
  C3 as amended. A sphere whose intersection distance \<open>d\<close> is not greater than the current nearest
  distance replaces the recorded hit (also when \<open>d\<close> equals it), and one whose distance is greater
  leaves it unchanged. So over the scan the last sphere that attains the smallest distance
  wins: if \<open>d\<close> is at most the nearest distance after the spheres before \<open>s\<close>, and every sphere
  after \<open>s\<close> misses or is strictly farther, the loop ends with the point, normal and material of
  \<open>s\<close>.
\<close>

theorem sphere_loop_last_nearest_wins:
  assumes "ray_sphere_intersect orig dir s = (True, d)"
    and "\<forall>t\<in>set post. \<not> fst (ray_sphere_intersect orig dir t)
                       \<or> snd (ray_sphere_intersect orig dir t) > d"
  shows "(d \<le> nearest_dist \<longrightarrow>
            sphere_step orig dir s (nearest_dist, pt, N, mat)
              = (d, orig + scale dir d, normalized (orig + scale dir d - center s), material s))
         \<and> (d > nearest_dist \<longrightarrow>
            sphere_step orig dir s (nearest_dist, pt, N, mat) = (nearest_dist, pt, N, mat))
         \<and> (d \<le> fst (sphere_loop orig dir pre st) \<longrightarrow>
            sphere_loop orig dir (pre @ s # post) st
              = (d, orig + scale dir d, normalized (orig + scale dir d - center s), material s))"
proof (intro conjI impI)
  assume "d \<le> nearest_dist"
  then show "sphere_step orig dir s (nearest_dist, pt, N, mat)
              = (d, orig + scale dir d, normalized (orig + scale dir d - center s), material s)"
    using assms(1) by (simp add: sphere_step_take)
next
  assume "d > nearest_dist"
  then show "sphere_step orig dir s (nearest_dist, pt, N, mat) = (nearest_dist, pt, N, mat)"
    using assms(1) by (simp add: sphere_step_def)
next
  assume le: "d \<le> fst (sphere_loop orig dir pre st)"
  have "sphere_loop orig dir (pre @ s # post) st
      = sphere_loop orig dir post (sphere_step orig dir s (sphere_loop orig dir pre st))"
    by (simp add: sphere_loop_append)
  also have "\<dots> = sphere_loop orig dir post
      (d, orig + scale dir d, normalized (orig + scale dir d - center s), material s)"
    using assms(1) le by (simp add: sphere_step_take)
  also have "\<dots> = (d, orig + scale dir d, normalized (orig + scale dir d - center s), material s)"
    using assms(2) by (rule sphere_loop_all_skip)
  finally show "sphere_loop orig dir (pre @ s # post) st
      = (d, orig + scale dir d, normalized (orig + scale dir d - center s), material s)" .
qed

theorem sphere_loop_last_nearest_wins_witness:
  "ray_sphere_intersect (Vec3 (-2) (- (5/2)) (-18)) (Vec3 (2/7) (6/7) (3/7)) (spheres ! 2)
     = (True, 19/7 - sqrt (23/196))
   \<and> \<not> fst (ray_sphere_intersect (Vec3 (-2) (- (5/2)) (-18)) (Vec3 (2/7) (6/7) (3/7))
              (spheres ! 3))
   \<and> fst (sphere_loop (Vec3 (-2) (- (5/2)) (-18)) (Vec3 (2/7) (6/7) (3/7))
             [spheres ! 0, spheres ! 1] (10 ^ 10, Vec3 0 0 0, Vec3 0 0 0, Material_default))
       = 19/7 - sqrt (23/196)
   \<and> sphere_loop (Vec3 (-2) (- (5/2)) (-18)) (Vec3 (2/7) (6/7) (3/7))
         ([spheres ! 0, spheres ! 1] @ spheres ! 2 # [spheres ! 3])
         (10 ^ 10, Vec3 0 0 0, Vec3 0 0 0, Material_default)
       = (19/7 - sqrt (23/196),
          Vec3 (-2) (- (5/2)) (-18) + scale (Vec3 (2/7) (6/7) (3/7)) (19/7 - sqrt (23/196)),
          normalized (Vec3 (-2) (- (5/2)) (-18)
                      + scale (Vec3 (2/7) (6/7) (3/7)) (19/7 - sqrt (23/196))
                      - center (spheres ! 2)),
          material (spheres ! 2))
   \<and> sphere_step (Vec3 (-2) (- (5/2)) (-18)) (Vec3 (2/7) (6/7) (3/7)) (spheres ! 2)
         (19/7 - sqrt (23/196), Vec3 0 0 0, Vec3 0 1 0, ivory)
       = (19/7 - sqrt (23/196),
          Vec3 (-2) (- (5/2)) (-18) + scale (Vec3 (2/7) (6/7) (3/7)) (19/7 - sqrt (23/196)),
          normalized (Vec3 (-2) (- (5/2)) (-18)
                      + scale (Vec3 (2/7) (6/7) (3/7)) (19/7 - sqrt (23/196))
                      - center (spheres ! 2)),
          material (spheres ! 2))
   \<and> 19/7 - sqrt (23/196) > 1
   \<and> sphere_step (Vec3 (-2) (- (5/2)) (-18)) (Vec3 (2/7) (6/7) (3/7)) (spheres ! 2)
         (1, Vec3 0 0 0, Vec3 0 1 0, ivory)
       = (1, Vec3 0 0 0, Vec3 0 1 0, ivory)"
proof -
  let ?O = "Vec3 (-2) (- (5/2)) (-18)" and ?D = "Vec3 (2/7) (6/7) (3/7)"
  let ?T = "19/7 - sqrt (23/196)"
  have post: "\<forall>t\<in>set [spheres ! 3].
         \<not> fst (ray_sphere_intersect ?O ?D t) \<or> snd (ray_sphere_intersect ?O ?D t) > ?T"
    by (simp only: list.set ball_simps tie_ray) simp
  have pre: "fst (sphere_loop ?O ?D [spheres ! 0, spheres ! 1]
                    (10 ^ 10, Vec3 0 0 0, Vec3 0 0 0, Material_default)) = ?T"
  proof -
    have "0 \<le> sqrt (23/196)"
      by simp
    then have "?T < 10000000000"
      by linarith
    then have "?T < 10 ^ 10"
      by simp
    then show ?thesis
      by (simp only: sphere_loop.simps sphere_step_def tie_ray prod.case) simp
  qed
  have "sqrt (23/196) < 1"
    by simp
  then have gt: "?T > 1"
    by linarith
  note w = sphere_loop_last_nearest_wins [OF tie_ray(3) post]
  have a: "sphere_loop ?O ?D ([spheres ! 0, spheres ! 1] @ spheres ! 2 # [spheres ! 3])
         (10 ^ 10, Vec3 0 0 0, Vec3 0 0 0, Material_default)
       = (?T, ?O + scale ?D ?T, normalized (?O + scale ?D ?T - center (spheres ! 2)),
          material (spheres ! 2))"
    using w [of _ _ _ _ "[spheres ! 0, spheres ! 1]"
        "(10 ^ 10, Vec3 0 0 0, Vec3 0 0 0, Material_default)"] pre
    by simp
  have b: "sphere_step ?O ?D (spheres ! 2) (?T, Vec3 0 0 0, Vec3 0 1 0, ivory)
       = (?T, ?O + scale ?D ?T, normalized (?O + scale ?D ?T - center (spheres ! 2)),
          material (spheres ! 2))"
    using w [of ?T "Vec3 0 0 0" "Vec3 0 1 0" ivory] by simp
  have c: "sphere_step ?O ?D (spheres ! 2) (1, Vec3 0 0 0, Vec3 0 1 0, ivory)
       = (1, Vec3 0 0 0, Vec3 0 1 0, ivory)"
    using w [of 1 "Vec3 0 0 0" "Vec3 0 1 0" ivory] gt by simp
  have miss: "\<not> fst (ray_sphere_intersect ?O ?D (spheres ! 3))"
    by (simp only: tie_ray) simp
  show ?thesis
    using tie_ray(3) miss pre a b c gt by (intro conjI)
qed

subsection \<open>Depth of the recursion\<close>

lemma cast_ray_depths_terminal:
  "depth > 4 \<or> \<not> fst (scene_intersect ss orig dir) \<Longrightarrow> cast_ray_depths ss orig dir depth = [depth]"
  by (subst cast_ray_depths.simps) (auto split: prod.splits)

lemma cast_ray_depths_hit:
  "scene_intersect ss orig dir = (True, point, N, mat) \<Longrightarrow> depth \<le> 4 \<Longrightarrow>
   cast_ray_depths ss orig dir depth =
     depth # cast_ray_depths ss point (normalized (reflect dir N)) (depth + 1)
           @ cast_ray_depths ss point (normalized (refract dir N (refractive_index mat) 1))
               (depth + 1)"
  by (subst cast_ray_depths.simps) simp

lemma cast_ray_depths_range:
  "k \<in> set (cast_ray_depths ss orig dir depth) \<Longrightarrow> depth \<le> k \<and> k \<le> max depth 5"
proof (induction ss orig dir depth arbitrary: k rule: cast_ray_depths.induct)
  case (1 ss orig dir depth)
  obtain hit point N mat where si: "scene_intersect ss orig dir = (hit, point, N, mat)"
    by (cases "scene_intersect ss orig dir")
  show ?case
  proof (cases "depth > 4 \<or> \<not> hit")
    case True
    then have "cast_ray_depths ss orig dir depth = [depth]"
      using si by (simp add: cast_ray_depths_terminal)
    with "1.prems" show ?thesis
      by simp
  next
    case False
    then have hit: "scene_intersect ss orig dir = (True, point, N, mat)" and d: "depth \<le> 4"
      using si by simp_all
    from "1.prems" cast_ray_depths_hit [OF hit d]
    consider "k = depth"
      | "k \<in> set (cast_ray_depths ss point (normalized (reflect dir N)) (depth + 1))"
      | "k \<in> set (cast_ray_depths ss point
                     (normalized (refract dir N (refractive_index mat) 1)) (depth + 1))"
      by auto
    then show ?thesis
    proof cases
      case 1
      then show ?thesis by simp
    next
      case 2
      from "1.IH"(1) [OF si [symmetric] refl refl False 2] d show ?thesis
        by simp
    next
      case 3
      from "1.IH"(2) [OF si [symmetric] refl refl False 3] d show ?thesis
        by simp
    qed
  qed
qed


lemma cast_ray_depths_length:
  "depth \<le> 5 \<Longrightarrow> Suc (length (cast_ray_depths ss orig dir depth)) \<le> 2 ^ nat (6 - depth)"
proof (induction ss orig dir depth rule: cast_ray_depths.induct)
  case (1 ss orig dir depth)
  obtain hit point N mat where si: "scene_intersect ss orig dir = (hit, point, N, mat)"
    by (cases "scene_intersect ss orig dir")
  show ?case
  proof (cases "depth > 4 \<or> \<not> hit")
    case True
    then have "cast_ray_depths ss orig dir depth = [depth]"
      using si by (simp add: cast_ray_depths_terminal)
    moreover have "(2::nat) ^ 1 \<le> 2 ^ nat (6 - depth)"
      using "1.prems" by (intro power_increasing) simp_all
    ultimately show ?thesis
      by simp
  next
    case False
    then have hit: "scene_intersect ss orig dir = (True, point, N, mat)" and d: "depth \<le> 4"
      using si by simp_all
    let ?a = "cast_ray_depths ss point (normalized (reflect dir N)) (depth + 1)"
    let ?b = "cast_ray_depths ss point (normalized (refract dir N (refractive_index mat) 1))
                (depth + 1)"
    have a: "Suc (length ?a) \<le> 2 ^ nat (6 - (depth + 1))"
      using "1.IH"(1) [OF si [symmetric] refl refl False] d by simp
    have b: "Suc (length ?b) \<le> 2 ^ nat (6 - (depth + 1))"
      using "1.IH"(2) [OF si [symmetric] refl refl False] d by simp
    have "nat (6 - depth) = Suc (nat (6 - (depth + 1)))"
      using d by simp
    then have p: "(2::nat) ^ nat (6 - depth) = 2 * 2 ^ nat (6 - (depth + 1))"
      by simp
    have "length (cast_ray_depths ss orig dir depth) = Suc (length ?a + length ?b)"
      by (simp add: cast_ray_depths_hit [OF hit d])
    with a b p show ?thesis
      by simp
  qed
qed

lemma cast_ray_depths_self: "depth \<in> set (cast_ray_depths ss orig dir depth)"
proof -
  obtain hit point N mat where si: "scene_intersect ss orig dir = (hit, point, N, mat)"
    by (cases "scene_intersect ss orig dir")
  show ?thesis
    by (subst cast_ray_depths.simps) (simp add: si)
qed

lemma cast_ray_depths_nonempty: "1 \<le> length (cast_ray_depths ss orig dir depth)"
  using cast_ray_depths_self [of depth ss orig dir]
  by (cases "cast_ray_depths ss orig dir depth") simp_all

lemma sphere_step_fst_le: "fst (sphere_step orig dir s st) \<le> fst st"
  by (cases st) (auto simp add: sphere_step_def split: prod.splits)

lemma sphere_step_fst_hit:
  "ray_sphere_intersect orig dir s = (True, d) \<Longrightarrow> fst (sphere_step orig dir s st) \<le> d"
  by (cases st) (auto simp add: sphere_step_def)

lemma sphere_loop_fst_le: "fst (sphere_loop orig dir ss st) \<le> fst st"
proof (induction ss arbitrary: st)
  case Nil
  then show ?case by simp
next
  case (Cons s ss)
  have "fst (sphere_loop orig dir ss (sphere_step orig dir s st))
          \<le> fst (sphere_step orig dir s st)"
    by (rule Cons.IH)
  also have "\<dots> \<le> fst st"
    by (rule sphere_step_fst_le)
  finally show ?case by simp
qed

lemma sphere_loop_fst_hit:
  "s \<in> set ss \<Longrightarrow> ray_sphere_intersect orig dir s = (True, d)
   \<Longrightarrow> fst (sphere_loop orig dir ss st) \<le> d"
proof (induction ss arbitrary: st)
  case Nil
  then show ?case by simp
next
  case (Cons a ss)
  show ?case
  proof (cases "s = a")
    case True
    have "fst (sphere_loop orig dir ss (sphere_step orig dir a st))
            \<le> fst (sphere_step orig dir a st)"
      by (rule sphere_loop_fst_le)
    also have "\<dots> \<le> d"
      using Cons.prems(2) True by (simp add: sphere_step_fst_hit)
    finally show ?thesis by simp
  next
    case False
    with Cons show ?thesis by simp
  qed
qed

lemma scene_intersect_hit_if:
  assumes "s \<in> set ss" and "ray_sphere_intersect orig dir s = (True, d)" and "d < 1000"
  shows "fst (scene_intersect ss orig dir)"
proof -
  have "fst (sphere_loop orig dir ss
               (checkerboard_step orig dir (10 ^ 10, Vec3 0 0 0, Vec3 0 0 0, Material_default)))
          \<le> d"
    using assms(1,2) by (rule sphere_loop_fst_hit)
  with assms(3) show ?thesis
    by (auto simp add: scene_intersect_def split: prod.splits)
qed

lemma primary_refract:
  "normalized (refract (Vec3 (- (7/25)) 0 (- (24/25))) (Vec3 (- (3/5)) 0 (4/5))
                 (refractive_index ivory) 1)
     = Vec3 (- (7/25)) 0 (- (24/25))"
proof -
  have c: "refract_cosi (Vec3 (- (7/25)) 0 (- (24/25))) (Vec3 (- (3/5)) 0 (4/5)) = 3/5"
    by (simp add: refract_cosi_def vec3_defs)
  have sq: "sqrt (9/25) = 3/5"
    by (rule sqrt_eqI) simp_all
  have "refract (Vec3 (- (7/25)) 0 (- (24/25))) (Vec3 (- (3/5)) 0 (4/5)) 1 1
          = Vec3 (- (7/25)) 0 (- (24/25))"
    by (subst refract.simps) (simp add: c refract_k_def sq vec3_defs)
  then show ?thesis
    by (simp add: ivory_def normalized_def norm_v_def vec3_defs)
qed

lemma inner_hit:
  "scene_intersect spheres (Vec3 (- (21/5)) 0 (- (72/5))) (Vec3 (- (7/25)) 0 (- (24/25)))
     = (True, Vec3 (- (609/125)) 0 (- (2088/125)), Vec3 (- (117/125)) 0 (- (44/125)), ivory)"
proof -
  have sq: "sqrt (36/25) = 6/5"
    by (rule sqrt_eqI) simp_all
  show ?thesis
    by (simp add: scene_eval sq)
qed

lemma inner_reflect:
  "normalized (reflect (Vec3 (- (7/25)) 0 (- (24/25))) (Vec3 (- (117/125)) 0 (- (44/125))))
     = Vec3 (527/625) 0 (- (336/625))"
  by (simp add: reflect_def normalized_def norm_v_def vec3_defs)

lemma inner_second_hit:
  "fst (scene_intersect spheres (Vec3 (- (609/125)) 0 (- (2088/125)))
          (Vec3 (527/625) 0 (- (336/625))))"
proof -
  have sq: "sqrt (36/25) = 6/5"
    by (rule sqrt_eqI) simp_all
  have r: "ray_sphere_intersect (Vec3 (- (609/125)) 0 (- (2088/125)))
          (Vec3 (527/625) 0 (- (336/625))) (spheres ! 0) = (True, 12/5)"
    by (simp add: spheres_def ray_sphere_intersect_def Let_def vec3_defs sq)
  have m: "spheres ! 0 \<in> set spheres"
    by (simp add: spheres_def)
  show ?thesis
    by (rule scene_intersect_hit_if [OF m r]) simp
qed

lemma cast_ray_depths_hit_length:
  assumes "fst (scene_intersect ss orig dir)" and "depth \<le> 4"
  shows "3 \<le> length (cast_ray_depths ss orig dir depth)"
proof -
  obtain point N mat where hit: "scene_intersect ss orig dir = (True, point, N, mat)"
    using assms(1) by (cases "scene_intersect ss orig dir") simp
  show ?thesis
    using cast_ray_depths_nonempty [of ss point "normalized (reflect dir N)" "depth + 1"]
      cast_ray_depths_nonempty
        [of ss point "normalized (refract dir N (refractive_index mat) 1)" "depth + 1"]
    by (simp add: cast_ray_depths_hit [OF hit assms(2)])
qed

text \<open>
  C7 as stated, refuted. The camera ray from the origin along \<open>(-7/25, 0, -24/25)\<close> at depth
  \<open>0\<close> hits the ivory sphere; its refraction branch hits the sphere again from inside, and the
  reflection branch of that hit does so once more. Each of these three hits evaluates both
  branches, so this one ray causes more than five evaluations of \<^verbatim>\<open>cast_ray\<close>.
\<close>

theorem cast_ray_depths_bounded_counterexample:
  "5 < length (cast_ray_depths spheres (Vec3 0 0 0) (Vec3 (- (7/25)) 0 (- (24/25))) 0)"
proof -
  let ?D = "Vec3 (- (7/25)) 0 (- (24/25))"
  let ?P1 = "Vec3 (- (21/5)) 0 (- (72/5))" and ?N1 = "Vec3 (- (3/5)) 0 (4/5)"
  let ?P2 = "Vec3 (- (609/125)) 0 (- (2088/125))" and ?N2 = "Vec3 (- (117/125)) 0 (- (44/125))"
  let ?R2 = "Vec3 (527/625) 0 (- (336/625))"
  have l0: "length (cast_ray_depths spheres (Vec3 0 0 0) ?D 0)
      = Suc (length (cast_ray_depths spheres ?P1 (normalized (reflect ?D ?N1)) 1)
             + length (cast_ray_depths spheres ?P1 ?D 1))"
    using cast_ray_depths_hit [OF primary_hit, of 0] by (simp add: primary_refract)
  have l1: "length (cast_ray_depths spheres ?P1 ?D 1)
      = Suc (length (cast_ray_depths spheres ?P2 ?R2 2)
             + length (cast_ray_depths spheres ?P2
                         (normalized (refract ?D ?N2 (refractive_index ivory) 1)) 2))"
    using cast_ray_depths_hit [OF inner_hit, of 1] by (simp add: inner_reflect)
  have l2: "3 \<le> length (cast_ray_depths spheres ?P2 ?R2 2)"
    by (rule cast_ray_depths_hit_length [OF inner_second_hit]) simp
  show ?thesis
    using l2 cast_ray_depths_nonempty [of spheres ?P1 "normalized (reflect ?D ?N1)" 1]
      cast_ray_depths_nonempty
        [of spheres ?P2 "normalized (refract ?D ?N2 (refractive_index ivory) 1)" 2]
    unfolding l0 l1 by linarith
qed

text \<open>
  C7 as amended. \<^verbatim>\<open>cast_ray\<close> terminates on every input (both recursive functions above are
  total, by the measure \<open>5 - depth\<close>). A call with \<open>depth > 4\<close> evaluates nothing further; a
  shaded hit evaluates the reflection and the refraction branch, each with \<open>depth + 1\<close>. For a
  ray cast at depth \<open>0\<close> every evaluation therefore has a depth between \<open>0\<close> and \<open>5\<close>, and there
  are at most \<open>63 = 1 + 2 + 4 + 8 + 16 + 32\<close> evaluations, whatever the spheres are.
\<close>

theorem cast_ray_depths_bounded:
  "(\<forall>k\<in>set (cast_ray_depths ss orig dir 0). 0 \<le> k \<and> k \<le> 5)
   \<and> length (cast_ray_depths ss orig dir 0) \<le> 63
   \<and> (\<forall>depth. depth > 4 \<longrightarrow> cast_ray_depths ss orig dir depth = [depth])
   \<and> (\<forall>depth point N mat.
         scene_intersect ss orig dir = (True, point, N, mat) \<and> depth \<le> 4 \<longrightarrow>
         cast_ray_depths ss orig dir depth =
           depth # cast_ray_depths ss point (normalized (reflect dir N)) (depth + 1)
                 @ cast_ray_depths ss point
                     (normalized (refract dir N (refractive_index mat) 1)) (depth + 1))"
proof (intro conjI allI impI ballI)
  fix k
  assume "k \<in> set (cast_ray_depths ss orig dir 0)"
  from cast_ray_depths_range [OF this] show "0 \<le> k" and "k \<le> 5"
    by simp_all
next
  have "Suc (length (cast_ray_depths ss orig dir 0)) \<le> 2 ^ nat (6 - 0)"
    by (rule cast_ray_depths_length) simp
  then show "length (cast_ray_depths ss orig dir 0) \<le> 63"
    by simp
next
  fix depth :: int
  assume "depth > 4"
  then show "cast_ray_depths ss orig dir depth = [depth]"
    by (simp add: cast_ray_depths_terminal)
next
  fix depth :: int and point N mat
  assume "scene_intersect ss orig dir = (True, point, N, mat) \<and> depth \<le> 4"
  then show "cast_ray_depths ss orig dir depth =
           depth # cast_ray_depths ss point (normalized (reflect dir N)) (depth + 1)
                 @ cast_ray_depths ss point
                     (normalized (refract dir N (refractive_index mat) 1)) (depth + 1)"
    by (simp add: cast_ray_depths_hit)
qed

theorem cast_ray_depths_bounded_witness:
  "0 \<in> set (cast_ray_depths spheres (Vec3 0 0 0) (Vec3 (- (7/25)) 0 (- (24/25))) 0)
   \<and> 0 \<le> last (cast_ray_depths spheres (Vec3 0 0 0) (Vec3 (- (7/25)) 0 (- (24/25))) 0)
   \<and> last (cast_ray_depths spheres (Vec3 0 0 0) (Vec3 (- (7/25)) 0 (- (24/25))) 0) \<le> 5
   \<and> length (cast_ray_depths spheres (Vec3 0 0 0) (Vec3 (- (7/25)) 0 (- (24/25))) 0) \<le> 63
   \<and> cast_ray_depths spheres (Vec3 0 0 0) (Vec3 (- (7/25)) 0 (- (24/25))) 5 = [5]
   \<and> scene_intersect spheres (Vec3 0 0 0) (Vec3 (- (7/25)) 0 (- (24/25)))
        = (True, Vec3 (- (21/5)) 0 (- (72/5)), Vec3 (- (3/5)) 0 (4/5), ivory)
   \<and> cast_ray_depths spheres (Vec3 0 0 0) (Vec3 (- (7/25)) 0 (- (24/25))) 0 =
        0 # cast_ray_depths spheres (Vec3 (- (21/5)) 0 (- (72/5)))
              (normalized (reflect (Vec3 (- (7/25)) 0 (- (24/25))) (Vec3 (- (3/5)) 0 (4/5))))
              (0 + 1)
          @ cast_ray_depths spheres (Vec3 (- (21/5)) 0 (- (72/5)))
              (normalized (refract (Vec3 (- (7/25)) 0 (- (24/25))) (Vec3 (- (3/5)) 0 (4/5))
                             (refractive_index ivory) 1))
              (0 + 1)"
proof -
  let ?ds = "cast_ray_depths spheres (Vec3 0 0 0) (Vec3 (- (7/25)) 0 (- (24/25))) 0"
  note w = cast_ray_depths_bounded [of spheres "Vec3 0 0 0" "Vec3 (- (7/25)) 0 (- (24/25))"]
  have self: "0 \<in> set ?ds"
    by (rule cast_ray_depths_self)
  then have "?ds \<noteq> []"
    by auto
  then have "last ?ds \<in> set ?ds"
    by (rule last_in_set)
  with w have l: "0 \<le> last ?ds" "last ?ds \<le> 5"
    by blast+
  have n: "length ?ds \<le> 63"
    using w by blast
  have a: "cast_ray_depths spheres (Vec3 0 0 0) (Vec3 (- (7/25)) 0 (- (24/25))) 5 = [5]"
    using w by simp
  have b: "?ds =
        0 # cast_ray_depths spheres (Vec3 (- (21/5)) 0 (- (72/5)))
              (normalized (reflect (Vec3 (- (7/25)) 0 (- (24/25))) (Vec3 (- (3/5)) 0 (4/5))))
              (0 + 1)
          @ cast_ray_depths spheres (Vec3 (- (21/5)) 0 (- (72/5)))
              (normalized (refract (Vec3 (- (7/25)) 0 (- (24/25))) (Vec3 (- (3/5)) 0 (4/5))
                             (refractive_index ivory) 1))
              (0 + 1)"
    using w primary_hit by simp
  show ?thesis
    using self l n a b primary_hit by (intro conjI)
qed

subsection \<open>Unit normals\<close>

lemma rsi_hit_on_sphere:
  assumes "dot dir dir = 1" and "ray_sphere_intersect orig dir s = (True, d)"
  shows "dot (orig + scale dir d - center s) (orig + scale dir d - center s)
           = radius s * radius s"
proof -
  let ?tca = "dot (center s - orig) dir"
  let ?d2 = "dot (center s - orig) (center s - orig) - ?tca * ?tca"
  let ?thc = "sqrt (radius s * radius s - ?d2)"
  from assms(2) have le: "?d2 \<le> radius s * radius s"
    by (auto simp add: ray_sphere_intersect_def Let_def split: if_splits)
  from assms(2) have "d = ?tca - ?thc \<or> d = ?tca + ?thc"
    by (auto simp add: ray_sphere_intersect_def Let_def split: if_splits)
  with assms(1) le show ?thesis
    by (rule ray_point_on_sphere)
qed

lemma dot_scale_scale: "dot (scale a k) (scale a k) = k * k * dot a a"
  by (simp add: vec3_defs algebra_simps)

lemma normalized_unit:
  assumes "0 < dot a a"
  shows "norm_v (normalized a) = 1"
proof -
  have n: "norm_v a * norm_v a = dot a a"
    by (rule norm_v_sq)
  with assms have nz: "norm_v a \<noteq> 0"
    by auto
  have "dot (normalized a) (normalized a) = (1 / norm_v a) * (1 / norm_v a) * dot a a"
    by (simp add: normalized_def dot_scale_scale)
  also have "\<dots> = dot a a / (norm_v a * norm_v a)"
    by simp
  also have "\<dots> = 1"
    using assms n by simp
  finally show ?thesis
    by (simp add: norm_v_unit_iff)
qed

lemma cross_scale_self: "cross (scale a k) a = Vec3 0 0 0"
  by (simp add: cross_def scale_def)

lemma norm_v_of_square:
  assumes "dot a a = r * r" and "0 < r"
  shows "norm_v a = r"
proof -
  have "norm_v a = sqrt (dot a a)"
    by (simp add: norm_v_def dot_def)
  also have "\<dots> = r"
    using assms by simp
  finally show ?thesis .
qed

lemma sphere_normal_facts:
  assumes u: "dot dir dir = 1" and r: "0 < radius s"
    and hit: "ray_sphere_intersect orig dir s = (True, d)"
  shows "norm_v (normalized (orig + scale dir d - center s)) = 1"
    and "normalized (orig + scale dir d - center s)
           = scale (orig + scale dir d - center s) (1 / radius s)"
    and "cross (normalized (orig + scale dir d - center s)) (orig + scale dir d - center s)
           = Vec3 0 0 0"
proof -
  let ?v = "orig + scale dir d - center s"
  have sq: "dot ?v ?v = radius s * radius s"
    by (rule rsi_hit_on_sphere [OF u hit])
  have pos: "0 < dot ?v ?v"
    using sq r by simp
  have n: "norm_v ?v = radius s"
    by (rule norm_v_of_square [OF sq r])
  show "norm_v (normalized ?v) = 1"
    by (rule normalized_unit [OF pos])
  show "normalized ?v = scale ?v (1 / radius s)"
    by (simp add: normalized_def n)
  show "cross (normalized ?v) ?v = Vec3 0 0 0"
    by (simp add: normalized_def cross_scale_self)
qed

lemma sphere_step_cases:
  "sphere_step orig dir x st = st
     \<and> (\<not> fst (ray_sphere_intersect orig dir x) \<or> snd (ray_sphere_intersect orig dir x) > fst st)
   \<or> (\<exists>d. ray_sphere_intersect orig dir x = (True, d) \<and> d \<le> fst st
          \<and> sphere_step orig dir x st
              = (d, orig + scale dir d, normalized (orig + scale dir d - center x), material x))"
  by (cases st; cases "ray_sphere_intersect orig dir x") (auto simp add: sphere_step_def)

lemma sphere_loop_provenance:
  "sphere_loop orig dir ss st = st
     \<and> (\<forall>t\<in>set ss. \<not> fst (ray_sphere_intersect orig dir t)
                     \<or> snd (ray_sphere_intersect orig dir t) > fst st)
   \<or> (\<exists>pre s post d. ss = pre @ s # post
          \<and> ray_sphere_intersect orig dir s = (True, d)
          \<and> d \<le> fst (sphere_loop orig dir pre st)
          \<and> (\<forall>t\<in>set post. \<not> fst (ray_sphere_intersect orig dir t)
                             \<or> snd (ray_sphere_intersect orig dir t) > d)
          \<and> sphere_loop orig dir ss st
              = (d, orig + scale dir d, normalized (orig + scale dir d - center s), material s))"
proof (induction ss rule: rev_induct)
  case Nil
  then show ?case by simp
next
  case (snoc x ss)
  let ?cur = "sphere_loop orig dir ss st"
  have app: "sphere_loop orig dir (ss @ [x]) st = sphere_step orig dir x ?cur"
    by (simp add: sphere_loop_append)
  from sphere_step_cases [of orig dir x ?cur]
  consider (take) d where "ray_sphere_intersect orig dir x = (True, d)" "d \<le> fst ?cur"
      "sphere_step orig dir x ?cur
         = (d, orig + scale dir d, normalized (orig + scale dir d - center x), material x)"
    | (skip) "sphere_step orig dir x ?cur = ?cur"
      "\<not> fst (ray_sphere_intersect orig dir x)
       \<or> snd (ray_sphere_intersect orig dir x) > fst ?cur"
    by blast
  then show ?case
  proof cases
    case take
    then have "ss @ [x] = ss @ x # []
          \<and> ray_sphere_intersect orig dir x = (True, d)
          \<and> d \<le> fst (sphere_loop orig dir ss st)
          \<and> (\<forall>t\<in>set []. \<not> fst (ray_sphere_intersect orig dir t)
                             \<or> snd (ray_sphere_intersect orig dir t) > d)
          \<and> sphere_loop orig dir (ss @ [x]) st
              = (d, orig + scale dir d, normalized (orig + scale dir d - center x), material x)"
      using app by simp
    then show ?thesis
      by blast
  next
    case skip
    from snoc.IH
    consider (none) "?cur = st"
        "\<forall>t\<in>set ss. \<not> fst (ray_sphere_intersect orig dir t)
                     \<or> snd (ray_sphere_intersect orig dir t) > fst st"
      | (some) pre s post d where "ss = pre @ s # post"
        "ray_sphere_intersect orig dir s = (True, d)"
        "d \<le> fst (sphere_loop orig dir pre st)"
        "\<forall>t\<in>set post. \<not> fst (ray_sphere_intersect orig dir t)
                             \<or> snd (ray_sphere_intersect orig dir t) > d"
        "?cur = (d, orig + scale dir d, normalized (orig + scale dir d - center s), material s)"
      by blast
    then show ?thesis
    proof cases
      case none
      then show ?thesis
        using app skip by auto
    next
      case some
      then have "ss @ [x] = pre @ s # (post @ [x])
          \<and> ray_sphere_intersect orig dir s = (True, d)
          \<and> d \<le> fst (sphere_loop orig dir pre st)
          \<and> (\<forall>t\<in>set (post @ [x]). \<not> fst (ray_sphere_intersect orig dir t)
                             \<or> snd (ray_sphere_intersect orig dir t) > d)
          \<and> sphere_loop orig dir (ss @ [x]) st
              = (d, orig + scale dir d, normalized (orig + scale dir d - center s), material s)"
        using app skip by auto
      then show ?thesis
        by blast
    qed
  qed
qed

lemma scene_intersect_sphere:
  assumes "ray_sphere_intersect orig dir s = (True, d)"
    and "d \<le> fst (sphere_loop orig dir pre
                   (checkerboard_step orig dir (10 ^ 10, Vec3 0 0 0, Vec3 0 0 0, Material_default)))"
    and "\<forall>t\<in>set post. \<not> fst (ray_sphere_intersect orig dir t)
                       \<or> snd (ray_sphere_intersect orig dir t) > d"
  shows "scene_intersect (pre @ s # post) orig dir
           = (d < 1000, orig + scale dir d, normalized (orig + scale dir d - center s), material s)"
proof -
  let ?st = "checkerboard_step orig dir (10 ^ 10, Vec3 0 0 0, Vec3 0 0 0, Material_default)"
  have "sphere_loop orig dir (pre @ s # post) ?st
      = sphere_loop orig dir post (sphere_step orig dir s (sphere_loop orig dir pre ?st))"
    by (simp add: sphere_loop_append)
  also have "\<dots> = sphere_loop orig dir post
      (d, orig + scale dir d, normalized (orig + scale dir d - center s), material s)"
    using assms(1,2) by (simp add: sphere_step_take)
  also have "\<dots> = (d, orig + scale dir d, normalized (orig + scale dir d - center s), material s)"
    using assms(3) by (rule sphere_loop_all_skip)
  finally show ?thesis
    by (simp add: scene_intersect_def)
qed

lemma primary_rsi:
  "ray_sphere_intersect (Vec3 0 0 0) (Vec3 (- (7/25)) 0 (- (24/25))) (spheres ! 0) = (True, 15)"
  "\<not> fst (ray_sphere_intersect (Vec3 0 0 0) (Vec3 (- (7/25)) 0 (- (24/25))) (spheres ! 1))"
  "\<not> fst (ray_sphere_intersect (Vec3 0 0 0) (Vec3 (- (7/25)) 0 (- (24/25))) (spheres ! 2))"
  "\<not> fst (ray_sphere_intersect (Vec3 0 0 0) (Vec3 (- (7/25)) 0 (- (24/25))) (spheres ! 3))"
proof -
  have sq: "sqrt (36/25) = 6/5"
    by (rule sqrt_eqI) simp_all
  show "ray_sphere_intersect (Vec3 0 0 0) (Vec3 (- (7/25)) 0 (- (24/25))) (spheres ! 0) = (True, 15)"
    "\<not> fst (ray_sphere_intersect (Vec3 0 0 0) (Vec3 (- (7/25)) 0 (- (24/25))) (spheres ! 1))"
    "\<not> fst (ray_sphere_intersect (Vec3 0 0 0) (Vec3 (- (7/25)) 0 (- (24/25))) (spheres ! 2))"
    "\<not> fst (ray_sphere_intersect (Vec3 0 0 0) (Vec3 (- (7/25)) 0 (- (24/25))) (spheres ! 3))"
    by (simp_all add: spheres_def ray_sphere_intersect_def Let_def vec3_defs sq)
qed

text \<open>
  C8 as stated, refuted. The claim puts no condition on the ray direction. In the initial scene
  the ray from \<open>(7, 5, -15)\<close> along \<open>(0, 0, -3/5)\<close>, a direction of length \<open>3/5\<close>, is reported
  as a hit on the last sphere (centre \<open>(7, 5, -18)\<close>, radius \<open>4\<close>) at distance \<open>5\<close>; the recorded
  point is the centre of that sphere, so the vector that is normalised is the zero vector and
  the returned normal is not a unit vector (the zero vector here, a division by zero in the
  C++).
\<close>

theorem scene_intersect_normal_unit_counterexample:
  "0 < radius (spheres ! 0) \<and> 0 < radius (spheres ! 1)
   \<and> 0 < radius (spheres ! 2) \<and> 0 < radius (spheres ! 3)
   \<and> center (spheres ! 3) = Vec3 7 5 (-18)
   \<and> norm_v (Vec3 0 0 (- (3/5))) = 3/5
   \<and> scene_intersect spheres (Vec3 7 5 (-15)) (Vec3 0 0 (- (3/5)))
        = (True, Vec3 7 5 (-18), Vec3 0 0 0, mirror)
   \<and> norm_v (Vec3 0 0 0) = 0"
proof -
  have sq: "sqrt (256/25) = 16/5" "sqrt (9/25) = 3/5"
    by (rule sqrt_eqI; simp)+
  have r: "0 < radius (spheres ! 0)" "0 < radius (spheres ! 1)"
    "0 < radius (spheres ! 2)" "0 < radius (spheres ! 3)"
    "center (spheres ! 3) = Vec3 7 5 (-18)"
    by (simp_all add: spheres_def)
  have n: "norm_v (Vec3 0 0 (- (3/5))) = 3/5" "norm_v (Vec3 0 0 0) = 0"
    by (simp_all add: norm_v_def sq)
  have s: "scene_intersect spheres (Vec3 7 5 (-15)) (Vec3 0 0 (- (3/5)))
        = (True, Vec3 7 5 (-18), Vec3 0 0 0, mirror)"
    by (simp add: scene_eval sq)
  show ?thesis
    using r n s by (intro conjI)
qed

text \<open>
  C8 as amended. Let the ray direction have unit length and every sphere a positive radius.
  If the checkerboard test accepts the ray and no sphere replaces that hit, the returned normal
  is the fixed unit vector \<open>(0, 1, 0)\<close>. If sphere \<open>s\<close> is the last one to replace the recorded hit
  (it is hit at a distance \<open>d\<close> not greater than the nearest distance so far, and every later
  sphere misses or is strictly farther), the returned point is \<open>orig + d dir\<close> and the returned
  normal is the normalisation of \<open>point - center s\<close>, which has unit length, equals
  \<open>(point - center s) / radius s\<close> and has zero cross product with \<open>point - center s\<close>. Every
  reported hit is of one of these two kinds, so every returned normal has unit length.
\<close>

theorem scene_intersect_normal_unit:
  assumes "norm_v dir = 1" and "\<forall>s\<in>set ss. 0 < radius s"
  shows
    "(plane_hit orig dir (10 ^ 10)
      \<and> (\<forall>t\<in>set ss. \<not> fst (ray_sphere_intersect orig dir t)
                      \<or> snd (ray_sphere_intersect orig dir t) > plane_d orig dir)
      \<longrightarrow> fst (snd (snd (scene_intersect ss orig dir))) = Vec3 0 1 0
          \<and> norm_v (Vec3 0 1 0) = 1)
     \<and> (ss = pre @ s # post
         \<and> ray_sphere_intersect orig dir s = (True, d)
         \<and> d \<le> fst (sphere_loop orig dir pre
                        (checkerboard_step orig dir
                           (10 ^ 10, Vec3 0 0 0, Vec3 0 0 0, Material_default)))
         \<and> (\<forall>t\<in>set post. \<not> fst (ray_sphere_intersect orig dir t)
                            \<or> snd (ray_sphere_intersect orig dir t) > d)
         \<longrightarrow> scene_intersect ss orig dir
               = (d < 1000, orig + scale dir d, normalized (orig + scale dir d - center s),
                  material s)
             \<and> norm_v (normalized (orig + scale dir d - center s)) = 1
             \<and> normalized (orig + scale dir d - center s)
                 = scale (orig + scale dir d - center s) (1 / radius s)
             \<and> cross (normalized (orig + scale dir d - center s))
                  (orig + scale dir d - center s) = Vec3 0 0 0)
     \<and> (scene_intersect ss orig dir = (True, pt, N, mat)
         \<longrightarrow> norm_v N = 1
             \<and> (plane_hit orig dir (10 ^ 10)
                  \<and> (\<forall>t\<in>set ss. \<not> fst (ray_sphere_intersect orig dir t)
                                  \<or> snd (ray_sphere_intersect orig dir t) > plane_d orig dir)
                  \<and> N = Vec3 0 1 0
                \<or> (\<exists>pre' s' post' d'.
                      ss = pre' @ s' # post'
                      \<and> ray_sphere_intersect orig dir s' = (True, d')
                      \<and> d' \<le> fst (sphere_loop orig dir pre'
                                     (checkerboard_step orig dir
                                        (10 ^ 10, Vec3 0 0 0, Vec3 0 0 0, Material_default)))
                      \<and> (\<forall>t\<in>set post'. \<not> fst (ray_sphere_intersect orig dir t)
                                          \<or> snd (ray_sphere_intersect orig dir t) > d')
                      \<and> pt = orig + scale dir d'
                      \<and> N = normalized (pt - center s')
                      \<and> N = scale (pt - center s') (1 / radius s')
                      \<and> cross N (pt - center s') = Vec3 0 0 0)))"
proof (intro conjI impI)
  from assms(1) have u: "dot dir dir = 1"
    by (simp add: norm_v_unit_iff)
  let ?init = "(10 ^ 10, Vec3 0 0 0, Vec3 0 0 0, Material_default) :: hit_state"
  let ?st = "checkerboard_step orig dir ?init"
  {
    assume "plane_hit orig dir (10 ^ 10)
      \<and> (\<forall>t\<in>set ss. \<not> fst (ray_sphere_intersect orig dir t)
                      \<or> snd (ray_sphere_intersect orig dir t) > plane_d orig dir)"
    then show "fst (snd (snd (scene_intersect ss orig dir))) = Vec3 0 1 0"
      by (simp add: scene_intersect_plane)
    show "norm_v (Vec3 0 1 0) = 1"
      by (simp add: norm_v_def)
  }
  {
    assume a: "ss = pre @ s # post
         \<and> ray_sphere_intersect orig dir s = (True, d)
         \<and> d \<le> fst (sphere_loop orig dir pre ?st)
         \<and> (\<forall>t\<in>set post. \<not> fst (ray_sphere_intersect orig dir t)
                            \<or> snd (ray_sphere_intersect orig dir t) > d)"
    then have r: "0 < radius s"
      using assms(2) by simp
    from a have hit: "ray_sphere_intersect orig dir s = (True, d)"
      by simp
    show "scene_intersect ss orig dir
               = (d < 1000, orig + scale dir d, normalized (orig + scale dir d - center s),
                  material s)"
      using a scene_intersect_sphere [of orig dir s d pre post] by simp
    show "norm_v (normalized (orig + scale dir d - center s)) = 1"
      by (rule sphere_normal_facts(1) [OF u r hit])
    show "normalized (orig + scale dir d - center s)
                 = scale (orig + scale dir d - center s) (1 / radius s)"
      by (rule sphere_normal_facts(2) [OF u r hit])
    show "cross (normalized (orig + scale dir d - center s))
                  (orig + scale dir d - center s) = Vec3 0 0 0"
      by (rule sphere_normal_facts(3) [OF u r hit])
  }
  assume h: "scene_intersect ss orig dir = (True, pt, N, mat)"
  then obtain nd where fin: "sphere_loop orig dir ss ?st = (nd, pt, N, mat)" and nd: "nd < 1000"
    by (auto simp add: scene_intersect_def split: prod.splits)
  from sphere_loop_provenance [of orig dir ss ?st]
  consider (none) "sphere_loop orig dir ss ?st = ?st"
      "\<forall>t\<in>set ss. \<not> fst (ray_sphere_intersect orig dir t)
                   \<or> snd (ray_sphere_intersect orig dir t) > fst ?st"
    | (some) pre' s' post' d' where "ss = pre' @ s' # post'"
      "ray_sphere_intersect orig dir s' = (True, d')"
      "d' \<le> fst (sphere_loop orig dir pre' ?st)"
      "\<forall>t\<in>set post'. \<not> fst (ray_sphere_intersect orig dir t)
                           \<or> snd (ray_sphere_intersect orig dir t) > d'"
      "sphere_loop orig dir ss ?st
         = (d', orig + scale dir d', normalized (orig + scale dir d' - center s'), material s')"
    by blast
  then have both: "norm_v N = 1
             \<and> (plane_hit orig dir (10 ^ 10)
                  \<and> (\<forall>t\<in>set ss. \<not> fst (ray_sphere_intersect orig dir t)
                                  \<or> snd (ray_sphere_intersect orig dir t) > plane_d orig dir)
                  \<and> N = Vec3 0 1 0
                \<or> (\<exists>pre' s' post' d'.
                      ss = pre' @ s' # post'
                      \<and> ray_sphere_intersect orig dir s' = (True, d')
                      \<and> d' \<le> fst (sphere_loop orig dir pre' ?st)
                      \<and> (\<forall>t\<in>set post'. \<not> fst (ray_sphere_intersect orig dir t)
                                          \<or> snd (ray_sphere_intersect orig dir t) > d')
                      \<and> pt = orig + scale dir d'
                      \<and> N = normalized (pt - center s')
                      \<and> N = scale (pt - center s') (1 / radius s')
                      \<and> cross N (pt - center s') = Vec3 0 0 0))"
  proof cases
    case none
    have ph: "plane_hit orig dir (10 ^ 10)"
    proof (rule ccontr)
      assume "\<not> plane_hit orig dir (10 ^ 10)"
      then have "?st = ?init"
        by (simp add: checkerboard_step_def)
      with none(1) fin nd show False
        by simp
    qed
    then have st: "?st = (plane_d orig dir, orig + scale dir (plane_d orig dir), Vec3 0 1 0,
                      Material_default\<lparr>diffuse_color :=
                         checker_color (orig + scale dir (plane_d orig dir))\<rparr>)"
      by (simp add: checkerboard_step_def Let_def)
    have N: "N = Vec3 0 1 0"
      using none(1) fin st by simp
    have "\<forall>t\<in>set ss. \<not> fst (ray_sphere_intersect orig dir t)
                   \<or> snd (ray_sphere_intersect orig dir t) > plane_d orig dir"
      using none(2) st by simp
    with ph N show ?thesis
      by (simp add: norm_v_def)
  next
    case some
    have r: "0 < radius s'"
      using some(1) assms(2) by simp
    have "(nd, pt, N, mat)
            = (d', orig + scale dir d', normalized (orig + scale dir d' - center s'), material s')"
      using fin [symmetric] some(5) by (rule trans)
    then have pt: "pt = orig + scale dir d'"
      and N: "N = normalized (orig + scale dir d' - center s')"
      by blast+
    note f = sphere_normal_facts [OF u r some(2)]
    have "ss = pre' @ s' # post'
                      \<and> ray_sphere_intersect orig dir s' = (True, d')
                      \<and> d' \<le> fst (sphere_loop orig dir pre' ?st)
                      \<and> (\<forall>t\<in>set post'. \<not> fst (ray_sphere_intersect orig dir t)
                                          \<or> snd (ray_sphere_intersect orig dir t) > d')
                      \<and> pt = orig + scale dir d'
                      \<and> N = normalized (pt - center s')
                      \<and> N = scale (pt - center s') (1 / radius s')
                      \<and> cross N (pt - center s') = Vec3 0 0 0"
      using some(1-4) f(2,3) unfolding pt N by (intro conjI) simp_all
    moreover have "norm_v N = 1"
      unfolding N by (rule f(1))
    ultimately show ?thesis
      by blast
  qed
  from both show "norm_v N = 1"
    by simp
  from both show "plane_hit orig dir (10 ^ 10)
                  \<and> (\<forall>t\<in>set ss. \<not> fst (ray_sphere_intersect orig dir t)
                                  \<or> snd (ray_sphere_intersect orig dir t) > plane_d orig dir)
                  \<and> N = Vec3 0 1 0
                \<or> (\<exists>pre' s' post' d'.
                      ss = pre' @ s' # post'
                      \<and> ray_sphere_intersect orig dir s' = (True, d')
                      \<and> d' \<le> fst (sphere_loop orig dir pre'
                                     (checkerboard_step orig dir
                                        (10 ^ 10, Vec3 0 0 0, Vec3 0 0 0, Material_default)))
                      \<and> (\<forall>t\<in>set post'. \<not> fst (ray_sphere_intersect orig dir t)
                                          \<or> snd (ray_sphere_intersect orig dir t) > d')
                      \<and> pt = orig + scale dir d'
                      \<and> N = normalized (pt - center s')
                      \<and> N = scale (pt - center s') (1 / radius s')
                      \<and> cross N (pt - center s') = Vec3 0 0 0)"
    by simp
qed

theorem scene_intersect_normal_unit_witness:
  "norm_v (Vec3 (- (7/25)) 0 (- (24/25))) = 1
   \<and> 0 < radius (spheres ! 0) \<and> 0 < radius (spheres ! 1)
   \<and> 0 < radius (spheres ! 2) \<and> 0 < radius (spheres ! 3)
   \<and> ray_sphere_intersect (Vec3 0 0 0) (Vec3 (- (7/25)) 0 (- (24/25))) (spheres ! 0) = (True, 15)
   \<and> \<not> fst (ray_sphere_intersect (Vec3 0 0 0) (Vec3 (- (7/25)) 0 (- (24/25))) (spheres ! 1))
   \<and> \<not> fst (ray_sphere_intersect (Vec3 0 0 0) (Vec3 (- (7/25)) 0 (- (24/25))) (spheres ! 2))
   \<and> \<not> fst (ray_sphere_intersect (Vec3 0 0 0) (Vec3 (- (7/25)) 0 (- (24/25))) (spheres ! 3))
   \<and> scene_intersect spheres (Vec3 0 0 0) (Vec3 (- (7/25)) 0 (- (24/25)))
        = (True, Vec3 0 0 0 + scale (Vec3 (- (7/25)) 0 (- (24/25))) 15,
           normalized (Vec3 0 0 0 + scale (Vec3 (- (7/25)) 0 (- (24/25))) 15 - center (spheres ! 0)),
           material (spheres ! 0))
   \<and> norm_v (normalized (Vec3 0 0 0 + scale (Vec3 (- (7/25)) 0 (- (24/25))) 15
                           - center (spheres ! 0))) = 1
   \<and> normalized (Vec3 0 0 0 + scale (Vec3 (- (7/25)) 0 (- (24/25))) 15 - center (spheres ! 0))
       = scale (Vec3 0 0 0 + scale (Vec3 (- (7/25)) 0 (- (24/25))) 15 - center (spheres ! 0))
           (1 / radius (spheres ! 0))
   \<and> cross (normalized (Vec3 0 0 0 + scale (Vec3 (- (7/25)) 0 (- (24/25))) 15
                         - center (spheres ! 0)))
        (Vec3 0 0 0 + scale (Vec3 (- (7/25)) 0 (- (24/25))) 15 - center (spheres ! 0))
       = Vec3 0 0 0
   \<and> norm_v (Vec3 (- (3/5)) 0 (4/5)) = 1
   \<and> norm_v (Vec3 0 (-1) 0) = 1
   \<and> plane_hit (Vec3 0 0 (-15)) (Vec3 0 (-1) 0) (10 ^ 10)
   \<and> fst (snd (snd (scene_intersect spheres (Vec3 0 0 (-15)) (Vec3 0 (-1) 0)))) = Vec3 0 1 0"
proof -
  let ?O = "Vec3 0 0 0" and ?D = "Vec3 (- (7/25)) 0 (- (24/25))"
  let ?init = "(10 ^ 10, Vec3 0 0 0, Vec3 0 0 0, Material_default) :: hit_state"
  have h: "norm_v ?D = 1"
    by (simp add: norm_v_unit_iff dot_def)
  have r: "\<forall>s\<in>set spheres. 0 < radius s"
    by (simp add: spheres_def)
  have r4: "0 < radius (spheres ! 0)" "0 < radius (spheres ! 1)"
    "0 < radius (spheres ! 2)" "0 < radius (spheres ! 3)"
    using r spheres_mem by blast+
  have dec: "spheres = [] @ spheres ! 0 # [spheres ! 1, spheres ! 2, spheres ! 3]"
    using spheres_nth by simp
  have np: "\<not> plane_hit ?O ?D (10 ^ 10)"
    by (simp add: plane_hit_def)
  have "checkerboard_step ?O ?D ?init = ?init"
    by (rule checkerboard_step_miss [OF np])
  then have pre: "15 \<le> fst (sphere_loop ?O ?D [] (checkerboard_step ?O ?D ?init))"
    by (simp only: sphere_loop.simps) simp
  have post: "\<forall>t\<in>set [spheres ! 1, spheres ! 2, spheres ! 3].
      \<not> fst (ray_sphere_intersect ?O ?D t) \<or> snd (ray_sphere_intersect ?O ?D t) > 15"
    using primary_rsi(2-4) by (simp only: list.set ball_simps simp_thms)
  note w = scene_intersect_normal_unit [OF h r, of ?O]
  have a': "scene_intersect spheres ?O ?D
             = ((15::real) < 1000, ?O + scale ?D 15,
                normalized (?O + scale ?D 15 - center (spheres ! 0)), material (spheres ! 0))
           \<and> norm_v (normalized (?O + scale ?D 15 - center (spheres ! 0))) = 1
           \<and> normalized (?O + scale ?D 15 - center (spheres ! 0))
               = scale (?O + scale ?D 15 - center (spheres ! 0)) (1 / radius (spheres ! 0))
           \<and> cross (normalized (?O + scale ?D 15 - center (spheres ! 0)))
                (?O + scale ?D 15 - center (spheres ! 0)) = Vec3 0 0 0"
    using w [of "[]" "spheres ! 0" "[spheres ! 1, spheres ! 2, spheres ! 3]" 15]
      dec primary_rsi(1) pre post by blast
  have lt: "((15::real) < 1000) = True"
    by simp
  have a: "scene_intersect spheres ?O ?D
             = (True, ?O + scale ?D 15, normalized (?O + scale ?D 15 - center (spheres ! 0)),
                material (spheres ! 0))
           \<and> norm_v (normalized (?O + scale ?D 15 - center (spheres ! 0))) = 1
           \<and> normalized (?O + scale ?D 15 - center (spheres ! 0))
               = scale (?O + scale ?D 15 - center (spheres ! 0)) (1 / radius (spheres ! 0))
           \<and> cross (normalized (?O + scale ?D 15 - center (spheres ! 0)))
                (?O + scale ?D 15 - center (spheres ! 0)) = Vec3 0 0 0"
    using a' unfolding lt .
  have b: "norm_v (Vec3 (- (3/5)) 0 (4/5)) = 1"
    using w [of _ _ _ _ "Vec3 (- (21/5)) 0 (- (72/5))" "Vec3 (- (3/5)) 0 (4/5)" ivory]
      primary_hit by blast
  have h2: "norm_v (Vec3 0 (-1) 0) = 1"
    by (simp add: norm_v_def)
  have d: "plane_d (Vec3 0 0 (-15)) (Vec3 0 (-1) 0) = 4"
    by (simp add: plane_d_def)
  have p: "Vec3 0 0 (-15) + scale (Vec3 0 (-1) 0) 4 = Vec3 0 (-4) (-15)"
    by (simp add: vec3_defs)
  have ph: "plane_hit (Vec3 0 0 (-15)) (Vec3 0 (-1) 0) (10 ^ 10)"
    by (simp add: plane_hit_def d p Let_def in_board_def)
  have sk: "\<forall>t\<in>set spheres. \<not> fst (ray_sphere_intersect (Vec3 0 0 (-15)) (Vec3 0 (-1) 0) t)
           \<or> snd (ray_sphere_intersect (Vec3 0 0 (-15)) (Vec3 0 (-1) 0) t)
              > plane_d (Vec3 0 0 (-15)) (Vec3 0 (-1) 0)"
    using rsi_down by blast
  have c: "fst (snd (snd (scene_intersect spheres (Vec3 0 0 (-15)) (Vec3 0 (-1) 0)))) = Vec3 0 1 0"
    using scene_intersect_normal_unit [OF h2 r, of "Vec3 0 0 (-15)"] ph sk by blast
  show ?thesis
    using h r4 primary_rsi a b h2 ph c by (intro conjI) blast+
qed

end
